theory Spec2Isabelle
  imports Complex_Main
begin

section \<open>Exceptions\<close>

text \<open>
  The Python exceptions that the oracle (\<^verbatim>\<open>rofl-oracle/oracle.py\<close>) can meet. A raise
  is the left injection of a sum type. \<^verbatim>\<open>except Exception\<close> catches every class
  below except \<open>KeyboardInterrupt\<close> and \<open>SystemExit\<close>, which derive from
  \<^verbatim>\<open>BaseException\<close> only.
\<close>

datatype exc =
    ConnectionError | Timeout | HTTPError | JSONDecodeError
  | KeyError | IndexError | TypeError
  | InvalidOperation | DecimalOverflow | OverflowError | ValueError
  | Web3RPCError | ContractLogicError | TimeExhausted
  | KeyboardInterrupt | SystemExit

fun is_Exception :: "exc \<Rightarrow> bool" where
  "is_Exception KeyboardInterrupt = False"
| "is_Exception SystemExit = False"
| "is_Exception _ = True"

section \<open>Python's \<^verbatim>\<open>decimal.Decimal\<close> under the default context\<close>

text \<open>
  A \<^verbatim>\<open>Decimal\<close> is a sign, a coefficient and an exponent
  (\<open>Finite s c e\<close> stands for \<open>(-1)\<^sup>s * c * 10\<^sup>e\<close>), an infinity or a NaN.
  The oracle never changes the arithmetic context, so every operation runs under the
  default one: 28 significant digits, rounding half to even, exponents between
  \<open>-999999\<close> and \<open>999999\<close>, with the \<^verbatim>\<open>InvalidOperation\<close> and \<^verbatim>\<open>Overflow\<close> signals
  raising.
\<close>

datatype decimal = Finite bool nat int | Infinity bool | NaN

definition prec :: nat where "prec = 28"
definition Emax :: int where "Emax = 999999"
definition Emin :: int where "Emin = - 999999"
definition Etiny :: int where "Etiny = Emin - int prec + 1"
definition Etop :: int where "Etop = Emax - int prec + 1"

text \<open>\<open>ndigits c\<close> is \<^verbatim>\<open>len(str(c))\<close>, the length of the coefficient's digit string.\<close>

fun ndigits :: "nat \<Rightarrow> nat" where
  "ndigits n = (if n < 10 then 1 else Suc (ndigits (n div 10)))"

declare ndigits.simps [simp del]

text \<open>
  Dropping the last \<open>k\<close> digits of a coefficient with \<^verbatim>\<open>ROUND_HALF_EVEN\<close>: the kept
  digits are \<open>c div 10\<^sup>k\<close>; they are incremented when the dropped digits are more than
  half a unit, or exactly half a unit with an odd kept part.
\<close>

definition round_half_even :: "nat \<Rightarrow> nat \<Rightarrow> nat" where
  "round_half_even c k =
     (let q = c div 10 ^ k; r = c mod 10 ^ k
      in if 10 ^ k < 2 * r \<or> (2 * r = 10 ^ k \<and> odd q) then q + 1 else q)"

text \<open>
  \<^verbatim>\<open>Decimal._fix\<close>: fit an exact result into the context. A zero only has its exponent
  clamped. Otherwise the coefficient is cut to \<open>prec\<close> digits (fewer for a subnormal
  result, whose exponent cannot go below \<open>Etiny\<close>), and a result beyond \<open>Emax\<close> raises
  \<^verbatim>\<open>decimal.Overflow\<close>.
\<close>

definition dec_fix :: "bool \<Rightarrow> nat \<Rightarrow> int \<Rightarrow> exc + decimal" where
  "dec_fix s c e =
     (if c = 0 then Inr (Finite s 0 (min (max e Etiny) Emax))
      else if Etop < int (ndigits c) + e - int prec then Inl DecimalOverflow
      else
        (let exp_min = max (int (ndigits c) + e - int prec) Etiny
         in if e < exp_min then
              (let q = round_half_even c (nat (exp_min - e))
               in if prec < ndigits q then
                    (if Etop < exp_min + 1 then Inl DecimalOverflow
                     else Inr (Finite s (q div 10) (exp_min + 1)))
                  else Inr (Finite s q exp_min))
            else Inr (Finite s c e)))"

text \<open>\<^verbatim>\<open>Decimal(n)\<close> for a Python int, and \<^verbatim>\<open>Decimal.__mul__\<close>.\<close>

definition dec_of_int :: "int \<Rightarrow> decimal" where
  "dec_of_int n = Finite (n < 0) (nat \<bar>n\<bar>) 0"

fun dec_mul :: "decimal \<Rightarrow> decimal \<Rightarrow> exc + decimal" where
  "dec_mul NaN _ = Inr NaN"
| "dec_mul _ NaN = Inr NaN"
| "dec_mul (Infinity s1) (Infinity s2) = Inr (Infinity (s1 \<noteq> s2))"
| "dec_mul (Infinity s1) (Finite s2 c2 e2) =
     (if c2 = 0 then Inl InvalidOperation else Inr (Infinity (s1 \<noteq> s2)))"
| "dec_mul (Finite s1 c1 e1) (Infinity s2) =
     (if c1 = 0 then Inl InvalidOperation else Inr (Infinity (s1 \<noteq> s2)))"
| "dec_mul (Finite s1 c1 e1) (Finite s2 c2 e2) = dec_fix (s1 \<noteq> s2) (c1 * c2) (e1 + e2)"

text \<open>
  \<^verbatim>\<open>price > 0\<close>: an ordering comparison with a NaN raises \<^verbatim>\<open>InvalidOperation\<close>;
  a negative zero is not greater than zero.
\<close>

fun dec_gt_zero :: "decimal \<Rightarrow> exc + bool" where
  "dec_gt_zero NaN = Inl InvalidOperation"
| "dec_gt_zero (Infinity s) = Inr (\<not> s)"
| "dec_gt_zero (Finite s c e) = Inr (\<not> s \<and> c \<noteq> 0)"

text \<open>
  \<^verbatim>\<open>int(d)\<close>: truncation toward zero; an infinity raises \<^verbatim>\<open>OverflowError\<close> and a
  NaN raises \<^verbatim>\<open>ValueError\<close>.
\<close>

fun dec_to_int :: "decimal \<Rightarrow> exc + int" where
  "dec_to_int NaN = Inl ValueError"
| "dec_to_int (Infinity s) = Inl OverflowError"
| "dec_to_int (Finite s c e) =
     Inr ((if s then - 1 else 1) *
          (if 0 \<le> e then int c * 10 ^ nat e else int (c div 10 ^ nat (- e))))"

text \<open>The exact value of a finite decimal, as a rational number.\<close>

definition fin_value :: "bool \<Rightarrow> nat \<Rightarrow> int \<Rightarrow> rat" where
  "fin_value s c e = (if s then - 1 else 1) * of_nat c * 10 powi e"

section \<open>The price normalizer\<close>

text \<open>
  Lines 120 to 122 of \<^verbatim>\<open>fetch_all_prices\<close>:
  \<^verbatim>\<open>if price is not None and price > 0: prices[name] = int(price * 1_000_000)\<close>.
  The result \<open>Inr None\<close> means that nothing is stored for the commodity, \<open>Inr (Some n)\<close>
  that \<open>n\<close> is stored, and \<open>Inl e\<close> that the statement raises \<open>e\<close>.
\<close>

definition normalize_price :: "decimal option \<Rightarrow> exc + int option" where
  "normalize_price price =
     (case price of
        None \<Rightarrow> Inr None
      | Some p \<Rightarrow>
          (case dec_gt_zero p of
             Inl x \<Rightarrow> Inl x
           | Inr False \<Rightarrow> Inr None
           | Inr True \<Rightarrow>
               (case dec_mul p (dec_of_int 1000000) of
                  Inl x \<Rightarrow> Inl x
                | Inr d \<Rightarrow>
                    (case dec_to_int d of
                       Inl x \<Rightarrow> Inl x
                     | Inr n \<Rightarrow> Inr (Some n)))))"

section \<open>The price source adapter\<close>

text \<open>
  What \<^verbatim>\<open>resp.json()\<close> can return. A float is kept as the decimal that
  \<^verbatim>\<open>Decimal(str(f))\<close> gives for it (its shortest representation, an infinity or a NaN);
  an object is the list of the items of the parsed \<^verbatim>\<open>dict\<close>.
\<close>

datatype json =
    JNull | JBool bool | JInt int | JFloat decimal | JStr string
  | JArr "json list" | JObj "(string \<times> json) list"

text \<open>\<^verbatim>\<open>v[key]\<close> for a string key, and \<^verbatim>\<open>v[0]\<close>.\<close>

fun getitem_str :: "json \<Rightarrow> string \<Rightarrow> exc + json" where
  "getitem_str (JObj kvs) k = (case map_of kvs k of None \<Rightarrow> Inl KeyError | Some v \<Rightarrow> Inr v)"
| "getitem_str _ k = Inl TypeError"

fun getitem_0 :: "json \<Rightarrow> exc + json" where
  "getitem_0 (JArr []) = Inl IndexError"
| "getitem_0 (JArr (v # vs)) = Inr v"
| "getitem_0 (JStr []) = Inl IndexError"
| "getitem_0 (JStr (c # cs)) = Inr (JStr [c])"
| "getitem_0 (JObj kvs) = Inl KeyError"
| "getitem_0 _ = Inl TypeError"

text \<open>
  \<^verbatim>\<open>Decimal(str(price))\<close>. The parser of decimal literals is a parameter: \<open>None\<close>
  stands for a string that \<^verbatim>\<open>Decimal\<close> rejects with \<^verbatim>\<open>InvalidOperation\<close>, as it
  rejects the strings of \<^verbatim>\<open>None\<close>, booleans, lists and dicts.
\<close>

fun decimal_of_json :: "(string \<Rightarrow> decimal option) \<Rightarrow> json \<Rightarrow> exc + decimal" where
  "decimal_of_json parse (JInt n) = Inr (dec_of_int n)"
| "decimal_of_json parse (JFloat d) = Inr d"
| "decimal_of_json parse (JStr s) =
     (case parse s of None \<Rightarrow> Inl InvalidOperation | Some d \<Rightarrow> Inr d)"
| "decimal_of_json parse _ = Inl InvalidOperation"

text \<open>
  The provider as the adapter sees it: \<^verbatim>\<open>requests.get\<close> returns a response or raises,
  \<^verbatim>\<open>raise_for_status\<close> raises or not, \<^verbatim>\<open>resp.json()\<close> returns a value or raises.
\<close>

record response =
  raise_for_status :: "exc option"
  json_body :: "exc + json"

record provider =
  requests_get :: "string \<Rightarrow> exc + response"
  parse_decimal :: "string \<Rightarrow> decimal option"

definition and_then :: "exc + 'a \<Rightarrow> ('a \<Rightarrow> exc + 'b) \<Rightarrow> exc + 'b" where
  "and_then m f = (case m of Inl x \<Rightarrow> Inl x | Inr v \<Rightarrow> f v)"

datatype level = INFO | WARNING | ERROR

datatype event =
    Log level string
  | SendRawTransaction "nat list list" "int list" nat nat
  | Sleep nat

fun is_send :: "event \<Rightarrow> bool" where
  "is_send (SendRawTransaction commodities price_list nonce gp) = True"
| "is_send _ = False"

text \<open>The body of the \<^verbatim>\<open>try\<close> of \<^verbatim>\<open>_fetch_commodity\<close> (lines 104 to 109).\<close>

definition fetch_try :: "provider \<Rightarrow> string \<Rightarrow> exc + decimal" where
  "fetch_try p ticker =
     and_then (requests_get p (''https://query1.finance.yahoo.com/v8/finance/chart/'' @ ticker))
       (\<lambda>resp. case raise_for_status resp of
           Some x \<Rightarrow> Inl x
         | None \<Rightarrow>
             and_then (json_body resp) (\<lambda>data.
             and_then (getitem_str data ''chart'') (\<lambda>chart.
             and_then (getitem_str chart ''result'') (\<lambda>result.
             and_then (getitem_0 result) (\<lambda>first.
             and_then (getitem_str first ''meta'') (\<lambda>meta.
             and_then (getitem_str meta ''regularMarketPrice'') (\<lambda>price.
             decimal_of_json (parse_decimal p) price)))))))"

text \<open>
  \<^verbatim>\<open>_fetch_commodity\<close> (lines 98 to 112): \<^verbatim>\<open>except Exception\<close> turns an exception
  of the body into \<^verbatim>\<open>None\<close> after a warning; an exception outside \<^verbatim>\<open>Exception\<close>
  passes through.
\<close>

definition fetch_commodity ::
  "provider \<Rightarrow> string \<Rightarrow> event list \<Rightarrow> (exc + decimal option) \<times> event list" where
  "fetch_commodity p ticker tr =
     (case fetch_try p ticker of
        Inr d \<Rightarrow> (Inr (Some d), tr)
      | Inl x \<Rightarrow>
          if is_Exception x then (Inr None, tr @ [Log WARNING ''Failed to fetch %s: %s''])
          else (Inl x, tr))"

section \<open>Keccak-256\<close>

text \<open>
  \<^verbatim>\<open>Web3.keccak(text=name)\<close> is the Keccak-256 hash of the UTF-8 bytes of the name:
  the sponge over the permutation Keccak-f[1600] with rate 136 bytes, the padding
  \<open>0x01 ... 0x80\<close> and 32 bytes of output. A lane is the list of its 64 bits, least
  significant first; the state is the list of its 25 lanes, lane \<open>(x, y)\<close> at index
  \<open>x + 5 * y\<close>.
\<close>

type_synonym lane = "bool list"

text \<open>Bitwise exclusive or of two lanes, and the step chi on lanes: \<open>x XOR (NOT y AND z)\<close>.\<close>

fun lxor :: "lane \<Rightarrow> lane \<Rightarrow> lane" where
  "lxor (x # xs) (y # ys) = (x \<noteq> y) # lxor xs ys"
| "lxor _ _ = []"

fun lchi :: "lane \<Rightarrow> lane \<Rightarrow> lane \<Rightarrow> lane" where
  "lchi (x # xs) (y # ys) (z # zs) = (x \<noteq> (\<not> y \<and> z)) # lchi xs ys zs"
| "lchi _ _ _ = []"

text \<open>Rotation to the left by \<open>n\<close> bits: bit \<open>i\<close> moves to position \<open>i + n mod 64\<close>.\<close>

definition rotl64 :: "lane \<Rightarrow> nat \<Rightarrow> lane" where
  "rotl64 w n = drop (64 - n) w @ take (64 - n) w"

text \<open>The \<open>k\<close> low bits of a number, least significant first, and back.\<close>

fun bits :: "nat \<Rightarrow> nat \<Rightarrow> bool list" where
  "bits 0 n = []"
| "bits (Suc k) n = odd n # bits k (n div 2)"

fun nat_of_bits :: "bool list \<Rightarrow> nat" where
  "nat_of_bits [] = 0"
| "nat_of_bits (b # bs) = (if b then 1 else 0) + 2 * nat_of_bits bs"

definition RC :: "lane list" where
  "RC = map (bits 64)
        [0x0000000000000001, 0x0000000000008082, 0x800000000000808A, 0x8000000080008000,
         0x000000000000808B, 0x0000000080000001, 0x8000000080008081, 0x8000000000008009,
         0x000000000000008A, 0x0000000000000088, 0x0000000080008009, 0x000000008000000A,
         0x000000008000808B, 0x800000000000008B, 0x8000000000008089, 0x8000000000008003,
         0x8000000000008002, 0x8000000000000080, 0x000000000000800A, 0x800000008000000A,
         0x8000000080008081, 0x8000000000008080, 0x0000000080000001, 0x8000000080008008]"

definition RHO :: "nat list" where
  "RHO = [0, 1, 62, 28, 27,
          36, 44, 6, 55, 20,
          3, 10, 43, 25, 39,
          41, 45, 15, 21, 8,
          18, 2, 61, 56, 14]"

definition column :: "lane list \<Rightarrow> nat \<Rightarrow> lane" where
  "column a x = lxor (lxor (lxor (lxor (a ! x) (a ! (x + 5))) (a ! (x + 10))) (a ! (x + 15))) (a ! (x + 20))"

definition theta_d :: "lane list \<Rightarrow> nat \<Rightarrow> lane" where
  "theta_d c x = lxor (c ! ((x + 4) mod 5)) (rotl64 (c ! ((x + 1) mod 5)) 1)"

definition theta_apply :: "lane list \<Rightarrow> lane list \<Rightarrow> lane list" where
  "theta_apply d a = map (\<lambda>i. lxor (a ! i) (d ! (i mod 5))) [0..<25]"

definition theta :: "lane list \<Rightarrow> lane list" where
  "theta a = theta_apply (map (theta_d (map (column a) [0..<5])) [0..<5]) a"

text \<open>
  Rho and pi together: the lane at \<open>(X, Y)\<close> of the result is the lane at
  \<open>(x, y) = (X + 3 * Y mod 5, X)\<close> of the argument, rotated by its offset.
\<close>

definition rho_pi_src :: "nat \<Rightarrow> nat" where
  "rho_pi_src i = (i mod 5 + 3 * (i div 5)) mod 5 + 5 * (i mod 5)"

definition rho_pi :: "lane list \<Rightarrow> lane list" where
  "rho_pi a = map (\<lambda>i. rotl64 (a ! rho_pi_src i) (RHO ! rho_pi_src i)) [0..<25]"

definition chi :: "lane list \<Rightarrow> lane list" where
  "chi b = map (\<lambda>i. lchi (b ! i) (b ! ((i mod 5 + 1) mod 5 + 5 * (i div 5)))
                         (b ! ((i mod 5 + 2) mod 5 + 5 * (i div 5)))) [0..<25]"

definition iota :: "lane \<Rightarrow> lane list \<Rightarrow> lane list" where
  "iota rc a = (case a of [] \<Rightarrow> [] | w # ws \<Rightarrow> lxor w rc # ws)"

definition keccak_round :: "lane list \<Rightarrow> lane \<Rightarrow> lane list" where
  "keccak_round a rc = iota rc (chi (rho_pi (theta a)))"

definition keccak_f :: "lane list \<Rightarrow> lane list" where
  "keccak_f a = foldl keccak_round a RC"

text \<open>Padding to a multiple of the rate, and the lanes of a block (little-endian).\<close>

definition pad :: "nat list \<Rightarrow> nat list" where
  "pad m =
     (let k = 136 - length m mod 136
      in if k = 1 then m @ [0x81] else m @ [0x01] @ replicate (k - 2) 0 @ [0x80])"

definition lanes_of_block :: "nat list \<Rightarrow> lane list" where
  "lanes_of_block bs = map (\<lambda>i. concat (map (bits 8) (take 8 (drop (8 * i) bs)))) [0..<17]"

definition xor_block :: "lane list \<Rightarrow> lane list \<Rightarrow> lane list" where
  "xor_block a blk = map (\<lambda>(w, v). lxor w v) (zip a (blk @ replicate 8 (replicate 64 False)))"

function absorb :: "lane list \<Rightarrow> nat list \<Rightarrow> lane list" where
  "absorb a bs =
     (if length bs < 136 then a
      else absorb (keccak_f (xor_block a (lanes_of_block (take 136 bs)))) (drop 136 bs))"
  by pat_completeness auto
termination
  by (relation "measure (\<lambda>(a, bs). length bs)") auto

declare absorb.simps [simp del]

definition bytes_of_lane :: "lane \<Rightarrow> nat list" where
  "bytes_of_lane w = map (\<lambda>i. nat_of_bits (take 8 (drop (8 * i) w))) [0..<8]"

definition keccak256 :: "nat list \<Rightarrow> nat list" where
  "keccak256 m =
     concat (map bytes_of_lane (take 4 (absorb (replicate 25 (replicate 64 False)) (pad m))))"

definition bytes_of_text :: "string \<Rightarrow> nat list" where
  "bytes_of_text s = map of_char s"

section \<open>The commodity registry\<close>

text \<open>
  \<^verbatim>\<open>COMMODITY_SOURCES\<close> (lines 56 to 63) in the order of the dict, each name with the
  ticker its closure fetches, and \<^verbatim>\<open>COMMODITY_IDS\<close> (lines 66 to 68), the dict
  comprehension over it.
\<close>

definition COMMODITY_SOURCES :: "(string \<times> string) list" where
  "COMMODITY_SOURCES =
     [(''CRUDE_OIL_WTI'', ''CL=F''),
      (''CRUDE_OIL_BRENT'', ''BZ=F''),
      (''NATURAL_GAS'', ''NG=F''),
      (''XAU_USD'', ''GC=F''),
      (''WHEAT_USD'', ''ZW=F'')]"

definition COMMODITY_IDS :: "(string \<times> nat list) list" where
  "COMMODITY_IDS = map (\<lambda>(name, ticker). (name, keccak256 (bytes_of_text name))) COMMODITY_SOURCES"

section \<open>Fetching and normalizing all prices\<close>

text \<open>
  A Python \<^verbatim>\<open>dict\<close> is the list of its items in insertion order, with distinct keys.
  \<^verbatim>\<open>d[k] = v\<close> replaces the value of a key that is present and appends a new key.
\<close>

fun dict_set :: "('k \<times> 'v) list \<Rightarrow> 'k \<Rightarrow> 'v \<Rightarrow> ('k \<times> 'v) list" where
  "dict_set [] k v = [(k, v)]"
| "dict_set ((k', v') # d) k v = (if k' = k then (k, v) # d else (k', v') # dict_set d k v)"

definition dict_get :: "('k \<times> 'v) list \<Rightarrow> 'k \<Rightarrow> exc + 'v" where
  "dict_get d k = (case map_of d k of None \<Rightarrow> Inl KeyError | Some v \<Rightarrow> Inr v)"

text \<open>
  The loop of \<^verbatim>\<open>fetch_all_prices\<close> (lines 118 to 123) over the remaining sources, with
  the dict \<open>prices\<close> built so far. An exception of a fetch or of the normalization leaves
  the function.
\<close>

fun fetch_loop ::
  "provider \<Rightarrow> (string \<times> string) list \<Rightarrow> (string \<times> int) list \<Rightarrow> event list \<Rightarrow>
   (exc + (string \<times> int) list) \<times> event list" where
  "fetch_loop p [] prices tr = (Inr prices, tr)"
| "fetch_loop p ((name, ticker) # rest) prices tr =
     (case fetch_commodity p ticker tr of
        (Inl x, tr1) \<Rightarrow> (Inl x, tr1)
      | (Inr price, tr1) \<Rightarrow>
          (case normalize_price price of
             Inl x \<Rightarrow> (Inl x, tr1)
           | Inr None \<Rightarrow> fetch_loop p rest prices tr1
           | Inr (Some n) \<Rightarrow>
               fetch_loop p rest (dict_set prices name n)
                 (tr1 @ [Log INFO ''  %-20s  $%.4f  (raw: %d)''])))"

definition fetch_all_prices ::
  "provider \<Rightarrow> event list \<Rightarrow> (exc + (string \<times> int) list) \<times> event list" where
  "fetch_all_prices p tr = fetch_loop p COMMODITY_SOURCES [] tr"

section \<open>Chain submission\<close>

text \<open>
  The chain client as \<^verbatim>\<open>submit_prices\<close> uses it, one field for each call of the
  \<^verbatim>\<open>try\<close> block (lines 140 to 149), in the order in which they are evaluated.
\<close>

record chain =
  get_transaction_count :: "exc + nat"
  submitBatch :: "nat list list \<Rightarrow> int list \<Rightarrow> exc option"
  gas_price :: "exc + nat"
  build_transaction :: "exc option"
  sign_transaction :: "exc option"
  send_raw_transaction :: "exc option"
  wait_for_transaction_receipt :: "exc + int"

definition check :: "exc option \<Rightarrow> exc + unit" where
  "check r = (case r of Some x \<Rightarrow> Inl x | None \<Rightarrow> Inr ())"

fun map_exc :: "('a \<Rightarrow> exc + 'b) \<Rightarrow> 'a list \<Rightarrow> exc + 'b list" where
  "map_exc f [] = Inr []"
| "map_exc f (x # xs) =
     (case f x of
        Inl e \<Rightarrow> Inl e
      | Inr y \<Rightarrow> (case map_exc f xs of Inl e \<Rightarrow> Inl e | Inr ys \<Rightarrow> Inr (y # ys)))"

text \<open>
  The \<^verbatim>\<open>try\<close> block up to the receipt: the result is the status of the receipt, and
  the trace gains the transaction once it is sent.
\<close>

definition submit_try ::
  "chain \<Rightarrow> nat list list \<Rightarrow> int list \<Rightarrow> event list \<Rightarrow> (exc + int) \<times> event list" where
  "submit_try ch commodities price_list tr =
     (case and_then (get_transaction_count ch) (\<lambda>nonce.
           and_then (check (submitBatch ch commodities price_list)) (\<lambda>_.
           and_then (gas_price ch) (\<lambda>gp.
           and_then (check (build_transaction ch)) (\<lambda>_.
           and_then (check (sign_transaction ch)) (\<lambda>_. Inr (nonce, gp)))))) of
        Inl x \<Rightarrow> (Inl x, tr)
      | Inr (nonce, gp) \<Rightarrow>
          (case send_raw_transaction ch of
             Some x \<Rightarrow> (Inl x, tr)
           | None \<Rightarrow>
               (wait_for_transaction_receipt ch,
                tr @ [SendRawTransaction commodities price_list nonce gp])))"

text \<open>
  Lines 136 and 137: the two list comprehensions over the keys of \<open>prices\<close>. A
  subscript with a missing key raises \<^verbatim>\<open>KeyError\<close>.
\<close>

definition build_batch :: "(string \<times> int) list \<Rightarrow> exc + nat list list \<times> int list" where
  "build_batch prices =
     and_then (map_exc (dict_get COMMODITY_IDS) (map fst prices)) (\<lambda>commodities.
     and_then (map_exc (dict_get prices) (map fst prices)) (\<lambda>price_list.
     Inr (commodities, price_list)))"

text \<open>\<^verbatim>\<open>submit_prices\<close> (lines 131 to 158).\<close>

definition submit_prices ::
  "chain \<Rightarrow> (string \<times> int) list \<Rightarrow> event list \<Rightarrow> (exc + unit) \<times> event list" where
  "submit_prices ch prices tr =
     (if prices = [] then (Inr (), tr @ [Log WARNING ''No prices fetched, skipping submission''])
      else
        (case build_batch prices of
           Inl x \<Rightarrow> (Inl x, tr)
         | Inr (commodities, price_list) \<Rightarrow>
             (case submit_try ch commodities price_list tr of
                (Inl x, tr1) \<Rightarrow>
                  if is_Exception x then (Inl x, tr1 @ [Log ERROR ''Submission error: %s''])
                  else (Inl x, tr1)
              | (Inr status, tr1) \<Rightarrow>
                  if status = 1
                  then (Inr (), tr1 @ [Log INFO ''Batch submitted: %s (%d commodities)''])
                  else (Inr (), tr1 @ [Log ERROR ''Transaction failed: %s'']))))"

section \<open>The main loop\<close>

text \<open>
  One iteration of \<^verbatim>\<open>while True\<close> in \<^verbatim>\<open>main\<close> (lines 196 to 203). The environment of
  an iteration is what the provider and the chain answer during it.
\<close>

record env =
  price_api :: provider
  chain_client :: chain

definition cycle :: "nat \<Rightarrow> env \<Rightarrow> event list \<Rightarrow> (exc + unit) \<times> event list" where
  "cycle poll_interval w tr =
     (case fetch_all_prices (price_api w) (tr @ [Log INFO ''Fetching commodity prices'']) of
        (Inl x, tr1) \<Rightarrow> (Inl x, tr1)
      | (Inr prices, tr1) \<Rightarrow>
          (case (if prices \<noteq> [] then submit_prices (chain_client w) prices tr1
                 else (Inr (), tr1 @ [Log WARNING ''All fetches failed, will retry in %ds''])) of
             (Inl x, tr2) \<Rightarrow> (Inl x, tr2)
           | (Inr u, tr2) \<Rightarrow> (Inr (), tr2 @ [Sleep poll_interval])))"

text \<open>
  The loop never returns by itself. It is run over the environments of finitely many
  iterations: \<open>Terminated x tr\<close> says that the exception \<open>x\<close> left \<^verbatim>\<open>main\<close>, which
  ends the process, and \<open>Running tr\<close> that the loop is about to start its next
  iteration after the trace \<open>tr\<close>.
\<close>

datatype outcome = Terminated exc "event list" | Running "event list"

fun main_loop :: "nat \<Rightarrow> env list \<Rightarrow> event list \<Rightarrow> outcome" where
  "main_loop poll_interval [] tr = Running tr"
| "main_loop poll_interval (w # ws) tr =
     (case cycle poll_interval w tr of
        (Inl x, tr1) \<Rightarrow> Terminated x tr1
      | (Inr u, tr1) \<Rightarrow> main_loop poll_interval ws tr1)"

section \<open>Notions used by the properties\<close>







text \<open>
  Rounding half to even on a rational number, and the rounding of the context on a value
  \<open>v\<close> with \<open>10\<^sup>a\<^sup>-\<^sup>1 \<le> v < 10\<^sup>a\<close>: to a multiple of \<open>10\<^sup>E\<close> with
  \<open>E = max (a - prec) Etiny\<close>.
\<close>

definition rhe_rat :: "rat \<Rightarrow> int" where
  "rhe_rat x =
     (let f = \<lfloor>x\<rfloor>; d = x - of_int f
      in if 1 / 2 < d \<or> (d = 1 / 2 \<and> odd f) then f + 1 else f)"

definition ctx_round :: "rat \<Rightarrow> int \<Rightarrow> rat" where
  "ctx_round v a =
     of_int (rhe_rat (v / 10 powi (max (a - int prec) Etiny))) * 10 powi (max (a - int prec) Etiny)"

text \<open>The fetch of a ticker fails with a caught exception, or returns a price that is not positive.\<close>

definition absent_or_nonpositive :: "provider \<Rightarrow> string \<Rightarrow> bool" where
  "absent_or_nonpositive p ticker =
     (case fetch_try p ticker of Inl x \<Rightarrow> is_Exception x | Inr d \<Rightarrow> dec_gt_zero d = Inr False)"

text \<open>Concrete providers and chain clients, for the examples.\<close>

definition quote_body :: "json \<Rightarrow> json" where
  "quote_body price =
     JObj [(''chart'', JObj [(''result'',
       JArr [JObj [(''meta'', JObj [(''regularMarketPrice'', price)])]])])]"

definition provider_const :: "json \<Rightarrow> provider" where
  "provider_const price =
     \<lparr>requests_get = (\<lambda>url. Inr \<lparr>raise_for_status = None, json_body = Inr (quote_body price)\<rparr>),
      parse_decimal = (\<lambda>s. None)\<rparr>"

definition provider_down :: provider where
  "provider_down = \<lparr>requests_get = (\<lambda>url. Inl ConnectionError), parse_decimal = (\<lambda>s. None)\<rparr>"

definition provider_partial :: provider where
  "provider_partial =
     \<lparr>requests_get = (\<lambda>url.
        if url = ''https://query1.finance.yahoo.com/v8/finance/chart/CL=F''
        then Inr \<lparr>raise_for_status = None, json_body = Inr (quote_body (JFloat (Finite False 8235 (- 2))))\<rparr>
        else if url = ''https://query1.finance.yahoo.com/v8/finance/chart/NG=F''
        then Inr \<lparr>raise_for_status = None, json_body = Inr (quote_body (JInt 3))\<rparr>
        else if url = ''https://query1.finance.yahoo.com/v8/finance/chart/ZW=F''
        then Inr \<lparr>raise_for_status = None, json_body = Inr (quote_body (JFloat (Finite False 5405 (- 1))))\<rparr>
        else if url = ''https://query1.finance.yahoo.com/v8/finance/chart/BZ=F''
        then Inr \<lparr>raise_for_status = Some HTTPError, json_body = Inl JSONDecodeError\<rparr>
        else Inl Timeout),
      parse_decimal = (\<lambda>s. None)\<rparr>"

definition chain_ok :: chain where
  "chain_ok =
     \<lparr>get_transaction_count = Inr 7, submitBatch = (\<lambda>commodities price_list. None),
      gas_price = Inr 100, build_transaction = None, sign_transaction = None,
      send_raw_transaction = None, wait_for_transaction_receipt = Inr 1\<rparr>"

definition chain_down :: chain where
  "chain_down = chain_ok\<lparr>get_transaction_count := Inl ConnectionError\<rparr>"

definition env_submit_fails :: env where
  "env_submit_fails = \<lparr>price_api = provider_const (JInt 5), chain_client = chain_down\<rparr>"

definition env_all_down :: env where
  "env_all_down = \<lparr>price_api = provider_down, chain_client = chain_ok\<rparr>"






section \<open>Evaluation of the model on concrete inputs\<close>

lemmas ctx_defs = prec_def Emax_def Emin_def Etiny_def Etop_def

lemmas normalize_eval =
  normalize_price_def dec_of_int_def dec_fix_def ndigits.simps ctx_defs round_half_even_def Let_def

lemmas fetch_eval =
  fetch_all_prices_def COMMODITY_SOURCES_def fetch_commodity_def fetch_try_def and_then_def
  quote_body_def normalize_eval

lemmas submit_eval =
  submit_prices_def build_batch_def dict_get_def COMMODITY_IDS_def submit_try_def check_def
  chain_ok_def chain_down_def

section \<open>The normalizer on prices that are not positive\<close>

lemma pow10_pos: "0 < (10::rat) powi e"
  by simp

lemma nonpositive_rejected: "fin_value s c e \<le> 0 \<Longrightarrow> normalize_price (Some (Finite s c e)) = Inr None"
  using pow10_pos [of e]
  by (cases s; cases "c = 0") (auto simp: fin_value_def normalize_price_def mult_le_0_iff not_le)


text \<open>
  Claim C5. A fetched price that is zero or negative (also minus infinity) is rejected
  by the normalizer exactly as an absent price is: nothing is stored for the commodity,
  and the loop of \<^verbatim>\<open>fetch_all_prices\<close> goes on with the dict unchanged.
\<close>

theorem nonpositive_price_excluded:
  assumes "fin_value s c e \<le> 0"
  shows "normalize_price (Some (Finite s c e)) = normalize_price None \<and>
         normalize_price (Some (Infinity True)) = normalize_price None \<and>
         (fetch_commodity p ticker tr = (Inr (Some (Finite s c e)), tr1) \<longrightarrow>
          fetch_loop p ((name, ticker) # rest) prices tr = fetch_loop p rest prices tr1)"
  using nonpositive_rejected [OF assms] by (simp add: normalize_price_def)

theorem nonpositive_price_excluded_witness:
  "fin_value False 0 0 \<le> 0 \<and>
   normalize_price (Some (Finite False 0 0)) = normalize_price None \<and>
   fetch_commodity (provider_const (JInt 0)) ''CL=F'' [] = (Inr (Some (Finite False 0 0)), []) \<and>
   fetch_loop (provider_const (JInt 0)) [(''CRUDE_OIL_WTI'', ''CL=F'')] [] [] = (Inr [], [])"
proof -
  have h: "fin_value False 0 0 \<le> 0"
    by (simp add: fin_value_def)
  have f: "fetch_commodity (provider_const (JInt 0)) ''CL=F'' [] = (Inr (Some (Finite False 0 0)), [])"
    by (simp add: fetch_eval provider_const_def)
  from nonpositive_price_excluded [OF h, of "provider_const (JInt 0)" "''CL=F''" "[]" "[]"
      "''CRUDE_OIL_WTI''" "[]" "[]"] h f
  show ?thesis by (simp add: normalize_eval)
qed

section \<open>The example of the specification\<close>

text \<open>
  Claim C3, as stated, fails: the price 82.355001 is the decimal with coefficient
  82355001 and exponent -6, and its normalized value is not 82355000.
\<close>

theorem example_price_counterexample:
  "normalize_price (Some (Finite False 82355001 (- 6))) \<noteq> Inr (Some 82355000)"
  by (simp add: normalize_eval)

text \<open>
  Claim C3, amended: for the price 82.355001 the normalized value is 82355001 (the price
  has six decimal digits, and none of them is lost).
\<close>

theorem example_price_normalized:
  "normalize_price (Some (Finite False 82355001 (- 6))) = Inr (Some 82355001)"
  by (simp add: normalize_eval)

section \<open>Scaling by truncation\<close>

lemma ndigits_pos: "0 < ndigits n"
  by (subst ndigits.simps) simp

lemma ndigits_less: "n < 10 ^ ndigits n"
proof (induction n rule: ndigits.induct)
  case (1 n)
  show ?case
  proof (cases "n < 10")
    case True
    then show ?thesis by (subst ndigits.simps) simp
  next
    case False
    with 1 have "n div 10 < 10 ^ ndigits (n div 10)" by simp
    then have "n < 10 * 10 ^ ndigits (n div 10)" by linarith
    with False show ?thesis by (subst ndigits.simps) simp
  qed
qed

lemma ndigits_ge: "0 < n \<Longrightarrow> 10 ^ (ndigits n - 1) \<le> n"
proof (induction n rule: ndigits.induct)
  case (1 n)
  show ?case
  proof (cases "n < 10")
    case True
    with 1(2) show ?thesis by (subst ndigits.simps) simp
  next
    case False
    then have "0 < n div 10" by simp
    with 1(1) False have ih: "10 ^ (ndigits (n div 10) - 1) \<le> n div 10" by simp
    have "ndigits n - 1 = Suc (ndigits (n div 10) - 1)"
      using False ndigits_pos [of "n div 10"] by (subst ndigits.simps) simp
    then have "(10::nat) ^ (ndigits n - 1) = 10 * 10 ^ (ndigits (n div 10) - 1)" by simp
    also have "\<dots> \<le> 10 * (n div 10)" using ih by simp
    also have "\<dots> \<le> n" by simp
    finally show ?thesis .
  qed
qed

lemma ndigits_le: "n < 10 ^ k \<Longrightarrow> 0 < k \<Longrightarrow> ndigits n \<le> k"
proof (cases "n = 0")
  case True
  assume "0 < k"
  with True show ?thesis by (subst ndigits.simps) simp
next
  case False
  assume "n < 10 ^ k"
  moreover from False have "(10::nat) ^ (ndigits n - 1) \<le> n" using ndigits_ge [of n] by simp
  ultimately have "(10::nat) ^ (ndigits n - 1) < 10 ^ k" by (rule le_less_trans [rotated])
  then have "ndigits n - 1 < k" by (rule power_less_imp_less_exp [rotated]) simp
  then show ?thesis by simp
qed


lemma round_half_even_le: "round_half_even m k \<le> m div 10 ^ k + 1"
  by (simp add: round_half_even_def Let_def)



lemma dec_mul_million:
  "dec_mul (Finite False c e) (dec_of_int 1000000) = dec_fix False (c * 1000000) e"
  by (simp add: dec_of_int_def)

lemma normalize_positive:
  "0 < c \<Longrightarrow> normalize_price (Some (Finite False c e)) =
     (case dec_fix False (c * 1000000) e of
        Inl x \<Rightarrow> Inl x
      | Inr d \<Rightarrow> (case dec_to_int d of Inl x \<Rightarrow> Inl x | Inr n \<Rightarrow> Inr (Some n)))"
  by (simp add: normalize_price_def dec_mul_million del: dec_mul.simps)


lemma floor_fin:
  "\<lfloor>of_nat q * (10::rat) powi E\<rfloor> =
     (if 0 \<le> E then int q * 10 ^ nat E else int (q div 10 ^ nat (- E)))"
proof (cases "0 \<le> E")
  case True
  then have "(10::rat) powi E = of_nat (10 ^ nat E)" by (simp add: power_int_def)
  then have "of_nat q * (10::rat) powi E = of_int (int q * 10 ^ nat E)"
    by simp
  then have "\<lfloor>of_nat q * (10::rat) powi E\<rfloor> = int q * 10 ^ nat E"
    by (simp only: floor_of_int)
  with True show ?thesis by simp
next
  case False
  then have "(10::rat) powi E = 1 / of_nat (10 ^ nat (- E))"
    by (simp add: power_int_def field_simps)
  then have "of_nat q * (10::rat) powi E = of_nat q / of_nat (10 ^ nat (- E))"
    by simp
  then have "\<lfloor>of_nat q * (10::rat) powi E\<rfloor> = int (q div 10 ^ nat (- E))"
    by (simp only: floor_divide_of_nat_eq)
  with False show ?thesis by simp
qed

lemma dec_to_int_floor: "dec_to_int (Finite False q E) = Inr \<lfloor>of_nat q * (10::rat) powi E\<rfloor>"
  by (simp add: floor_fin)








section \<open>The normalizer is monotone\<close>

lemma rhe_rat_mono: "x \<le> y \<Longrightarrow> rhe_rat x \<le> rhe_rat y"
proof (cases "\<lfloor>x\<rfloor> = \<lfloor>y\<rfloor>")
  case True
  assume "x \<le> y"
  with True show ?thesis by (auto simp: rhe_rat_def Let_def)
next
  case False
  assume "x \<le> y"
  with False have "\<lfloor>x\<rfloor> < \<lfloor>y\<rfloor>" using floor_mono [of x y] by simp
  moreover have "rhe_rat x \<le> \<lfloor>x\<rfloor> + 1" by (simp add: rhe_rat_def Let_def)
  moreover have "\<lfloor>y\<rfloor> \<le> rhe_rat y" by (simp add: rhe_rat_def Let_def)
  ultimately show ?thesis by linarith
qed

lemma rhe_rat_of_int [simp]: "rhe_rat (of_int n) = n"
  by (simp add: rhe_rat_def)

lemma rhe_rat_small: "0 \<le> x \<Longrightarrow> x < 1 / 2 \<Longrightarrow> rhe_rat x = 0"
proof -
  assume x: "0 \<le> x" "x < 1 / 2"
  then have "\<lfloor>x\<rfloor> = 0" by (simp add: floor_eq_iff)
  with x show ?thesis by (simp add: rhe_rat_def)
qed

lemma round_half_even_rat:
  "int (round_half_even m k) = rhe_rat (of_nat m / of_nat (10 ^ k))"
proof -
  define D :: nat where "D = 10 ^ k"
  have D: "0 < D" by (simp add: D_def)
  have fl: "\<lfloor>(of_nat m :: rat) / of_nat D\<rfloor> = int (m div D)"
    by (simp only: floor_divide_of_nat_eq)
  have "(of_nat m :: rat) = of_nat (m div D) * of_nat D + of_nat (m mod D)"
    by (simp flip: of_nat_mult of_nat_add)
  with D have fr: "(of_nat m :: rat) / of_nat D - of_int (int (m div D)) = of_nat (m mod D) / of_nat D"
    by (simp add: field_simps)
  have half: "(1 / 2 < (of_nat (m mod D) :: rat) / of_nat D) = (D < 2 * (m mod D))"
  proof -
    from D have "(1 / 2 < (of_nat (m mod D) :: rat) / of_nat D) = ((of_nat D :: rat) < of_nat (2 * (m mod D)))"
      by (simp add: field_simps)
    also have "\<dots> = (D < 2 * (m mod D))" by (simp only: of_nat_less_iff)
    finally show ?thesis .
  qed
  have tie: "((of_nat (m mod D) :: rat) / of_nat D = 1 / 2) = (2 * (m mod D) = D)"
  proof -
    from D have "((of_nat (m mod D) :: rat) / of_nat D = 1 / 2) = ((of_nat (2 * (m mod D)) :: rat) = of_nat D)"
      by (auto simp: field_simps)
    also have "\<dots> = (2 * (m mod D) = D)" by (simp only: of_nat_eq_iff)
    finally show ?thesis .
  qed
  show ?thesis
    unfolding rhe_rat_def round_half_even_def Let_def fl fr half tie D_def [symmetric]
    by simp
qed


lemma pow10_add: "(10::rat) powi (x + y) = 10 powi x * 10 powi y"
  by (simp add: power_int_add)

lemma pow10_diff: "(10::rat) powi x / 10 powi y = 10 powi (x - y)"
  by (simp add: power_int_diff)

lemma pow10_nat: "(10::rat) powi int k = of_nat (10 ^ k)"
  by simp

lemma pow10_mono: "x \<le> y \<Longrightarrow> (10::rat) powi x \<le> 10 powi y"
  by (rule power_int_increasing) simp_all

lemma pow10_less_cancel: "(10::rat) powi x < 10 powi y \<Longrightarrow> x < y"
proof (rule ccontr)
  assume "(10::rat) powi x < 10 powi y" and "\<not> x < y"
  then have "(10::rat) powi y \<le> 10 powi x" by (intro pow10_mono) simp
  with \<open>(10::rat) powi x < 10 powi y\<close> show False by simp
qed

lemma div_pow_bound:
  assumes "m < 10 ^ n" "n \<le> 28 + k"
  shows "m div 10 ^ k < (10::nat) ^ 28"
proof -
  from assms(2) have "(10::nat) ^ n \<le> 10 ^ (28 + k)" by (intro power_increasing) simp_all
  with assms(1) have "m < 10 ^ 28 * 10 ^ k" by (simp add: power_add)
  then show ?thesis by (rule less_mult_imp_div_less)
qed

lemma ndigits_gt_imp: "28 < ndigits q \<Longrightarrow> 10 ^ 28 \<le> q"
  using ndigits_le [of q 28] by (cases "q < 10 ^ 28") simp_all

lemma dec_fix_value:
  assumes m: "0 < m" and r: "dec_fix False m e = Inr d"
  shows "\<exists>q E. d = Finite False q E \<and>
     of_nat q * (10::rat) powi E = ctx_round (of_nat m * 10 powi e) (int (ndigits m) + e)"
proof -
  define E where "E = max (int (ndigits m) + e - int prec) Etiny"
  have cr: "ctx_round (of_nat m * 10 powi e) (int (ndigits m) + e) =
      of_int (rhe_rat (of_nat m * 10 powi e / 10 powi E)) * 10 powi E"
    by (simp add: ctx_round_def E_def)
  from m r have no: "\<not> Etop < int (ndigits m) + e - int prec"
    by (auto simp: dec_fix_def split: if_splits)
  show ?thesis
  proof (cases "e < E")
    case False
    with m r no have d: "d = Finite False m e"
      by (simp add: dec_fix_def Let_def E_def)
    from False have "(10::rat) powi e / 10 powi E = 10 powi int (nat (e - E))"
      by (simp add: pow10_diff)
    then have "of_nat m * (10::rat) powi e / 10 powi E = of_nat m * 10 powi int (nat (e - E))"
      by (simp only: times_divide_eq_right [symmetric])
    also have "\<dots> = of_int (int m * 10 ^ nat (e - E))"
      by (simp only: pow10_nat) simp
    finally have "rhe_rat (of_nat m * (10::rat) powi e / 10 powi E) = int m * 10 ^ nat (e - E)"
      by (simp only: rhe_rat_of_int)
    then have "of_int (rhe_rat (of_nat m * (10::rat) powi e / 10 powi E)) * (10::rat) powi E =
        of_nat m * (10 powi int (nat (e - E)) * 10 powi E)"
      by (simp only: pow10_nat) simp
    also from False have "\<dots> = of_nat m * 10 powi e"
      by (simp flip: pow10_add)
    finally show ?thesis using d cr by auto
  next
    case True
    define k where "k = nat (E - e)"
    define q where "q = round_half_even m k"
    from True have ke: "int k = E - e" by (simp add: k_def)
    have "(10::rat) powi e / 10 powi E = 10 powi (- int k)"
      by (simp add: ke pow10_diff)
    also have "\<dots> = 1 / of_nat (10 ^ k)"
      by (simp only: power_int_minus_divide pow10_nat)
    finally have "(10::rat) powi e / 10 powi E = 1 / of_nat (10 ^ k)" .
    then have "of_nat m * ((10::rat) powi e / 10 powi E) = of_nat m * (1 / of_nat (10 ^ k))"
      by (simp only:)
    then have "of_nat m * (10::rat) powi e / 10 powi E = of_nat m / of_nat (10 ^ k)"
      by (simp only: times_divide_eq_right mult_1_right)
    then have rq: "rhe_rat (of_nat m * (10::rat) powi e / 10 powi E) = int q"
      by (simp add: round_half_even_rat q_def)
    show ?thesis
    proof (cases "prec < ndigits q")
      case False
      with m r no True have d: "d = Finite False q E"
        by (simp add: dec_fix_def Let_def E_def q_def k_def)
      with cr rq show ?thesis by simp
    next
      case carry: True
      with m r no True have d: "d = Finite False (q div 10) (E + 1)"
        by (auto simp: dec_fix_def Let_def E_def q_def k_def split: if_splits)
      have "int (ndigits m) - 28 \<le> int k"
        unfolding ke E_def by (simp add: prec_def)
      then have "ndigits m \<le> 28 + k" by simp
      with ndigits_less [of m] have "m div 10 ^ k < 10 ^ 28" by (rule div_pow_bound)
      with round_half_even_le [of m k] have "q \<le> 10 ^ 28" by (simp add: q_def)
      moreover from carry have "10 ^ 28 \<le> q" by (intro ndigits_gt_imp) (simp add: prec_def)
      ultimately have q: "q = 10 ^ 28" by simp
      have "of_nat (q div 10) * (10::rat) powi (E + 1) = of_nat q * 10 powi E"
        by (simp add: q pow10_add)
      with d cr rq show ?thesis by simp
    qed
  qed
qed

lemma ctx_round_mono:
  assumes l1: "10 powi (a1 - 1) \<le> v1" and u1: "v1 < 10 powi a1"
    and l2: "10 powi (a2 - 1) \<le> v2" and u2: "v2 < 10 powi a2"
    and le: "v1 \<le> v2"
  shows "ctx_round v1 a1 \<le> ctx_round v2 a2"
proof -
  define E1 where "E1 = max (a1 - int prec) Etiny"
  define E2 where "E2 = max (a2 - int prec) Etiny"
  have p1: "0 < (10::rat) powi E1" and p2: "0 < (10::rat) powi E2" by simp_all
  from l1 le u2 have "(10::rat) powi (a1 - 1) < 10 powi a2" by simp
  then have a: "a1 - 1 < a2" by (rule pow10_less_cancel)
  then have E: "E1 \<le> E2" by (simp add: E1_def E2_def)
  show ?thesis
  proof (cases "E1 = E2")
    case True
    from le p2 have "v1 / 10 powi E2 \<le> v2 / 10 powi E2"
      by (simp add: divide_right_mono)
    then have "rhe_rat (v1 / 10 powi E2) \<le> rhe_rat (v2 / 10 powi E2)"
      by (rule rhe_rat_mono)
    then have "(of_int (rhe_rat (v1 / 10 powi E2)) :: rat) \<le> of_int (rhe_rat (v2 / 10 powi E2))"
      by simp
    with p2 have "of_int (rhe_rat (v1 / 10 powi E2)) * (10::rat) powi E2 \<le>
        of_int (rhe_rat (v2 / 10 powi E2)) * 10 powi E2"
      by (simp add: mult_right_mono)
    with True show ?thesis
      by (simp add: ctx_round_def E1_def E2_def)
  next
    case False
    with E have lt: "E1 < E2" by simp
    then have E2: "E2 = a2 - int prec" and E1a: "E1 < a2 - int prec"
      unfolding E1_def E2_def by linarith+
    from E1a have j: "0 \<le> a2 - 1 - E1" by (simp add: prec_def)
    have up: "ctx_round v1 a1 \<le> 10 powi (a2 - 1)"
    proof -
      from E1a have "a1 - int prec < a2 - int prec" unfolding E1_def by linarith
      then have "(10::rat) powi a1 \<le> 10 powi (a2 - 1)" by (intro pow10_mono) simp
      with u1 have "v1 \<le> 10 powi (a2 - 1)" by simp
      with p1 have "v1 / 10 powi E1 \<le> 10 powi (a2 - 1) / 10 powi E1"
        by (simp add: divide_right_mono)
      also have "\<dots> = 10 powi int (nat (a2 - 1 - E1))"
        using j by (simp add: pow10_diff)
      also have "\<dots> = of_int (10 ^ nat (a2 - 1 - E1))"
        by (simp only: pow10_nat) simp
      finally have "rhe_rat (v1 / 10 powi E1) \<le> rhe_rat (of_int (10 ^ nat (a2 - 1 - E1)))"
        by (rule rhe_rat_mono)
      then have "rhe_rat (v1 / 10 powi E1) \<le> 10 ^ nat (a2 - 1 - E1)"
        by (simp only: rhe_rat_of_int)
      then have "(of_int (rhe_rat (v1 / 10 powi E1)) :: rat) \<le> of_int (10 ^ nat (a2 - 1 - E1))"
        by (simp only: of_int_le_iff)
      also have "\<dots> = 10 powi int (nat (a2 - 1 - E1))"
        by (simp only: pow10_nat) simp
      also from j have "\<dots> = 10 powi (a2 - 1 - E1)" by simp
      finally have "of_int (rhe_rat (v1 / 10 powi E1)) * (10::rat) powi E1 \<le>
          10 powi (a2 - 1 - E1) * 10 powi E1"
        using p1 by (simp add: mult_right_mono)
      also have "\<dots> = 10 powi (a2 - 1)" by (simp flip: pow10_add)
      finally show ?thesis by (simp add: ctx_round_def E1_def)
    qed
    have low: "10 powi (a2 - 1) \<le> ctx_round v2 a2"
    proof -
      have ex: "a2 - 1 - E2 = int 27"
        by (simp add: E2 prec_def)
      have ex2: "a2 - 1 = int 27 + E2"
        by (simp add: E2 prec_def)
      have N: "(of_nat (10 ^ 27) :: rat) = of_int (10 ^ 27)" by simp
      have "(10::rat) powi (a2 - 1) / 10 powi E2 = 10 powi (a2 - 1 - E2)"
        by (rule pow10_diff)
      also have "\<dots> = 10 powi int 27" by (simp only: ex)
      also have "\<dots> = of_nat (10 ^ 27)" by (rule pow10_nat)
      finally have dv: "(10::rat) powi (a2 - 1) / 10 powi E2 = of_int (10 ^ 27)"
        by (simp only: N)
      from l2 p2 have "(10::rat) powi (a2 - 1) / 10 powi E2 \<le> v2 / 10 powi E2"
        by (simp add: divide_right_mono)
      then have "(of_int (10 ^ 27) :: rat) \<le> v2 / 10 powi E2"
        by (simp only: dv)
      then have "rhe_rat (of_int (10 ^ 27)) \<le> rhe_rat (v2 / 10 powi E2)"
        by (rule rhe_rat_mono)
      then have "10 ^ 27 \<le> rhe_rat (v2 / 10 powi E2)"
        by (simp only: rhe_rat_of_int)
      then have "(of_int (10 ^ 27) :: rat) \<le> of_int (rhe_rat (v2 / 10 powi E2))"
        by (simp only: of_int_le_iff)
      with p2 have le: "of_int (10 ^ 27) * (10::rat) powi E2 \<le>
          of_int (rhe_rat (v2 / 10 powi E2)) * 10 powi E2"
        by (simp only: mult_right_mono less_imp_le)
      have "(10::rat) powi (a2 - 1) = 10 powi (int 27 + E2)" by (simp only: ex2)
      also have "\<dots> = 10 powi int 27 * 10 powi E2" by (rule pow10_add)
      also have "\<dots> = of_int (10 ^ 27) * 10 powi E2" by (simp only: pow10_nat N)
      also note le
      finally show ?thesis by (simp add: ctx_round_def E2_def)
    qed
    from up low show ?thesis by simp
  qed
qed

lemma value_bounds:
  assumes "0 < m"
  shows "10 powi (int (ndigits m) + e - 1) \<le> of_nat m * (10::rat) powi e"
    and "of_nat m * (10::rat) powi e < 10 powi (int (ndigits m) + e)"
proof -
  have p: "0 < (10::rat) powi e" by simp
  have eq: "int (ndigits m) + e - 1 = int (ndigits m - 1) + e"
    using ndigits_pos [of m] by simp
  from assms have "(of_nat (10 ^ (ndigits m - 1)) :: rat) \<le> of_nat m"
    by (simp only: of_nat_le_iff ndigits_ge)
  with p have le: "of_nat (10 ^ (ndigits m - 1)) * (10::rat) powi e \<le> of_nat m * 10 powi e"
    by (simp only: mult_right_mono less_imp_le)
  have "(10::rat) powi (int (ndigits m) + e - 1) = 10 powi (int (ndigits m - 1) + e)"
    by (simp only: eq)
  also have "\<dots> = 10 powi int (ndigits m - 1) * 10 powi e"
    by (rule pow10_add)
  also have "\<dots> = of_nat (10 ^ (ndigits m - 1)) * 10 powi e"
    by (simp only: pow10_nat)
  also note le
  finally show "10 powi (int (ndigits m) + e - 1) \<le> of_nat m * (10::rat) powi e" .
  have "(of_nat m :: rat) < of_nat (10 ^ ndigits m)"
    by (simp only: of_nat_less_iff ndigits_less)
  with p have "of_nat m * (10::rat) powi e < of_nat (10 ^ ndigits m) * 10 powi e"
    by (simp only: mult_strict_right_mono)
  also have "of_nat (10 ^ ndigits m) * (10::rat) powi e = 10 powi int (ndigits m) * 10 powi e"
    by (simp only: pow10_nat)
  also have "\<dots> = 10 powi (int (ndigits m) + e)"
    by (rule pow10_add [symmetric])
  finally show "of_nat m * (10::rat) powi e < 10 powi (int (ndigits m) + e)" .
qed

lemma normalize_Some_positive:
  "normalize_price (Some (Finite s c e)) = Inr (Some n) \<Longrightarrow> \<not> s \<and> 0 < c"
  by (auto simp: normalize_price_def split: bool.splits)

lemma normalize_value:
  assumes "normalize_price (Some (Finite s c e)) = Inr (Some n)"
  shows "n = \<lfloor>ctx_round (fin_value s c e * 1000000) (int (ndigits (c * 1000000)) + e)\<rfloor>"
proof -
  from assms have s: "\<not> s" and c: "0 < c" by (auto dest: normalize_Some_positive)
  from assms s c obtain d where d: "dec_fix False (c * 1000000) e = Inr d"
    and n: "dec_to_int d = Inr n"
    by (auto simp: normalize_positive split: sum.splits)
  from c have "0 < c * 1000000" by simp
  from dec_fix_value [OF this d] obtain q E where dq: "d = Finite False q E"
    and v: "of_nat q * (10::rat) powi E =
      ctx_round (of_nat (c * 1000000) * 10 powi e) (int (ndigits (c * 1000000)) + e)"
    by blast
  have fv: "fin_value s c e * 1000000 = of_nat (c * 1000000) * 10 powi e"
    using s by (simp add: fin_value_def)
  from n dq have "n = \<lfloor>of_nat q * (10::rat) powi E\<rfloor>"
    by (simp add: dec_to_int_floor del: dec_to_int.simps)
  then show ?thesis by (simp only: v fv)
qed


lemma normalize_mono:
  assumes n1: "normalize_price (Some (Finite s1 c1 e1)) = Inr (Some n1)"
    and n2: "normalize_price (Some (Finite s2 c2 e2)) = Inr (Some n2)"
    and le: "fin_value s1 c1 e1 \<le> fin_value s2 c2 e2"
  shows "n1 \<le> n2"
proof -
  from n1 have p1: "\<not> s1" "0 < c1 * 1000000" by (auto dest: normalize_Some_positive)
  from n2 have p2: "\<not> s2" "0 < c2 * 1000000" by (auto dest: normalize_Some_positive)
  have v1: "fin_value s1 c1 e1 * 1000000 = of_nat (c1 * 1000000) * 10 powi e1"
    using p1 by (simp add: fin_value_def)
  have v2: "fin_value s2 c2 e2 * 1000000 = of_nat (c2 * 1000000) * 10 powi e2"
    using p2 by (simp add: fin_value_def)
  from le have "fin_value s1 c1 e1 * 1000000 \<le> fin_value s2 c2 e2 * 1000000" by simp
  then have "ctx_round (fin_value s1 c1 e1 * 1000000) (int (ndigits (c1 * 1000000)) + e1) \<le>
      ctx_round (fin_value s2 c2 e2 * 1000000) (int (ndigits (c2 * 1000000)) + e2)"
    unfolding v1 v2
    by (intro ctx_round_mono value_bounds p1 p2)
  then show ?thesis
    unfolding normalize_value [OF n1] normalize_value [OF n2] by (rule floor_mono)
qed

text \<open>
  Claim C4, as stated, fails: the price \<open>1E+999999\<close> is greater than 1, but its
  product by 1,000,000 exceeds the exponent range and raises \<^verbatim>\<open>decimal.Overflow\<close>, so
  that it has no normalized value to compare.
\<close>

theorem monotone_counterexample:
  "fin_value False 1 0 \<le> fin_value False 1 999999 \<and>
   normalize_price (Some (Finite False 1 0)) = Inr (Some 1000000) \<and>
   normalize_price (Some (Finite False 1 999999)) = Inl DecimalOverflow"
proof -
  have "(10::rat) powi 0 \<le> 10 powi 999999" by (rule pow10_mono) simp
  then have a: "fin_value False 1 0 \<le> fin_value False 1 999999"
    by (simp only: fin_value_def if_False of_nat_1 mult_1)
  have b: "normalize_price (Some (Finite False 1 0)) = Inr (Some 1000000)"
    by (simp add: normalize_eval)
  have c: "normalize_price (Some (Finite False 1 999999)) = Inl DecimalOverflow"
    by (simp add: normalize_eval)
  from a b c show ?thesis by (intro conjI)
qed

text \<open>
  Claim C4, amended: for every pair of finite decimal prices \<open>p1 \<le> p2\<close> that both
  normalize to an integer (both positive, neither overflowing), the integer of \<open>p1\<close> is
  at most the integer of \<open>p2\<close>, also beyond 22 digits, where the context rounds.
\<close>

theorem normalize_monotone:
  assumes "normalize_price (Some (Finite s1 c1 e1)) = Inr (Some n1)"
    and "normalize_price (Some (Finite s2 c2 e2)) = Inr (Some n2)"
    and "fin_value s1 c1 e1 \<le> fin_value s2 c2 e2"
  shows "n1 \<le> n2"
  using assms by (rule normalize_mono)

theorem normalize_monotone_witness:
  "normalize_price (Some (Finite False 8235 (- 2))) = Inr (Some 82350000) \<and>
   normalize_price (Some (Finite False 82355001 (- 6))) = Inr (Some 82355001) \<and>
   fin_value False 8235 (- 2) \<le> fin_value False 82355001 (- 6) \<and>
   (82350000::int) \<le> 82355001"
proof -
  have h1: "normalize_price (Some (Finite False 8235 (- 2))) = Inr (Some 82350000)"
    by (simp add: normalize_eval)
  have h2: "normalize_price (Some (Finite False 82355001 (- 6))) = Inr (Some 82355001)"
    by (simp add: normalize_eval)
  have h3: "fin_value False 8235 (- 2) \<le> fin_value False 82355001 (- 6)"
    by (simp add: fin_value_def power_int_minus)
  from normalize_monotone [OF h1 h2 h3] h1 h2 h3 show ?thesis by simp
qed


section \<open>The adapter catches every exception of its body\<close>

lemma getitem_str_exc: "getitem_str j k = Inl x \<Longrightarrow> is_Exception x"
  by (cases j) (auto split: option.splits)

lemma getitem_0_exc: "getitem_0 j = Inl x \<Longrightarrow> is_Exception x"
  by (induction j rule: getitem_0.induct) auto

lemma decimal_of_json_exc: "decimal_of_json parse j = Inl x \<Longrightarrow> is_Exception x"
  by (cases j) (auto split: option.splits)

lemma fetch_try_exc:
  assumes get: "\<And>url x. requests_get p url = Inl x \<Longrightarrow> is_Exception x"
    and status: "\<And>url r x. requests_get p url = Inr r \<Longrightarrow> raise_for_status r = Some x \<Longrightarrow> is_Exception x"
    and body: "\<And>url r x. requests_get p url = Inr r \<Longrightarrow> json_body r = Inl x \<Longrightarrow> is_Exception x"
    and raised: "fetch_try p ticker = Inl x"
  shows "is_Exception x"
  using raised
  by (auto simp: fetch_try_def and_then_def split: sum.splits option.splits
      dest: get status body getitem_str_exc getitem_0_exc decimal_of_json_exc)


text \<open>
  Claim C6. When the provider raises only exceptions derived from \<^verbatim>\<open>Exception\<close>
  (network errors, HTTP status errors, JSON decoding errors), the adapter returns for
  every ticker: the price when the body of the \<^verbatim>\<open>try\<close> succeeds, and \<^verbatim>\<open>None\<close> after
  a warning when any step of it raises, a missing field or a value that is not a decimal
  included.
\<close>

theorem adapter_never_raises:
  assumes get: "\<And>url x. requests_get p url = Inl x \<Longrightarrow> is_Exception x"
    and status: "\<And>url r x. requests_get p url = Inr r \<Longrightarrow> raise_for_status r = Some x \<Longrightarrow> is_Exception x"
    and body: "\<And>url r x. requests_get p url = Inr r \<Longrightarrow> json_body r = Inl x \<Longrightarrow> is_Exception x"
  shows "fetch_commodity p ticker tr =
     (case fetch_try p ticker of
        Inl x \<Rightarrow> (Inr None, tr @ [Log WARNING ''Failed to fetch %s: %s''])
      | Inr d \<Rightarrow> (Inr (Some d), tr))"
  using fetch_try_exc [OF get status body, where ticker = ticker]
  by (auto simp: fetch_commodity_def split: sum.splits)

theorem adapter_never_raises_witness:
  "fetch_try provider_partial ''BZ=F'' = Inl HTTPError \<and> is_Exception HTTPError \<and>
   fetch_commodity provider_partial ''BZ=F'' [] = (Inr None, [Log WARNING ''Failed to fetch %s: %s''])"
proof -
  have get: "requests_get provider_partial url = Inl x \<Longrightarrow> is_Exception x" for url x
    by (auto simp: provider_partial_def split: if_splits)
  have status: "requests_get provider_partial url = Inr r \<Longrightarrow> raise_for_status r = Some x \<Longrightarrow>
      is_Exception x" for url r x
    by (auto simp: provider_partial_def split: if_splits)
  have body: "requests_get provider_partial url = Inr r \<Longrightarrow> json_body r = Inl x \<Longrightarrow>
      is_Exception x" for url r x
    by (auto simp: provider_partial_def split: if_splits)
  have t: "fetch_try provider_partial ''BZ=F'' = Inl HTTPError"
    by (simp add: fetch_try_def and_then_def provider_partial_def)
  from adapter_never_raises [of provider_partial "''BZ=F''" "[]", OF get status body] t
  have "fetch_commodity provider_partial ''BZ=F'' [] = (Inr None, [Log WARNING ''Failed to fetch %s: %s''])"
    by simp
  with t show ?thesis by simp
qed

section \<open>The batch of a cycle\<close>




lemma dict_get_own: "distinct (map fst d) \<Longrightarrow> (k, v) \<in> set d \<Longrightarrow> dict_get d k = Inr v"
  by (simp add: dict_get_def)

lemma fetch_loop_absent:
  "\<forall>src \<in> set srcs. absent_or_nonpositive p (snd src) \<Longrightarrow>
   \<exists>tr'. fetch_loop p srcs prices tr = (Inr prices, tr') \<and> filter is_send tr' = filter is_send tr"
proof (induction srcs arbitrary: tr)
  case Nil
  then show ?case by simp
next
  case (Cons src srcs)
  obtain name ticker where src: "src = (name, ticker)" by (cases src)
  from Cons.prems have a: "absent_or_nonpositive p ticker"
    and rest: "\<forall>src \<in> set srcs. absent_or_nonpositive p (snd src)"
    by (simp_all add: src)
  from a obtain price tr1 where f: "fetch_commodity p ticker tr = (Inr price, tr1)"
    and n: "normalize_price price = Inr None" and t: "filter is_send tr1 = filter is_send tr"
    by (auto simp: absent_or_nonpositive_def fetch_commodity_def normalize_price_def split: sum.splits)
  from Cons.IH [OF rest, of tr1] f n t show ?case
    by (auto simp: src)
qed






text \<open>
  Claim C7. When every fetch of a cycle is absent or not positive, the dict of prices is
  empty, the iteration sends no transaction, logs the warning and sleeps, and the loop
  goes on with the next iteration; \<^verbatim>\<open>submit_prices\<close> itself does nothing but warn on
  an empty dict.
\<close>

theorem all_absent_no_submission:
  assumes "\<forall>src \<in> set COMMODITY_SOURCES. absent_or_nonpositive (price_api w) (snd src)"
  shows "\<exists>tr1. cycle poll w tr =
            (Inr (), tr1 @ [Log WARNING ''All fetches failed, will retry in %ds'', Sleep poll]) \<and>
          filter is_send tr1 = filter is_send tr \<and>
          main_loop poll (w # ws) tr =
            main_loop poll ws (tr1 @ [Log WARNING ''All fetches failed, will retry in %ds'', Sleep poll]) \<and>
          submit_prices ch [] tr1 = (Inr (), tr1 @ [Log WARNING ''No prices fetched, skipping submission''])"
proof -
  from fetch_loop_absent [OF assms, of "[]" "tr @ [Log INFO ''Fetching commodity prices'']"]
  obtain tr1 where f: "fetch_all_prices (price_api w) (tr @ [Log INFO ''Fetching commodity prices'']) = (Inr [], tr1)"
    and t: "filter is_send tr1 = filter is_send tr"
    by (auto simp: fetch_all_prices_def)
  have c: "cycle poll w tr = (Inr (), tr1 @ [Log WARNING ''All fetches failed, will retry in %ds'', Sleep poll])"
    by (simp add: cycle_def f)
  show ?thesis
    by (rule exI [of _ tr1]) (simp add: c t submit_prices_def)
qed

theorem all_absent_no_submission_witness:
  "absent_or_nonpositive (price_api env_all_down) ''CL=F'' \<and>
   absent_or_nonpositive (price_api env_all_down) ''BZ=F'' \<and>
   absent_or_nonpositive (price_api env_all_down) ''NG=F'' \<and>
   absent_or_nonpositive (price_api env_all_down) ''GC=F'' \<and>
   absent_or_nonpositive (price_api env_all_down) ''ZW=F'' \<and>
   cycle 60 env_all_down [] =
     (Inr (), [Log INFO ''Fetching commodity prices'',
               Log WARNING ''Failed to fetch %s: %s'', Log WARNING ''Failed to fetch %s: %s'', Log WARNING ''Failed to fetch %s: %s'', Log WARNING ''Failed to fetch %s: %s'', Log WARNING ''Failed to fetch %s: %s'',
               Log WARNING ''All fetches failed, will retry in %ds'', Sleep 60]) \<and>
   main_loop 60 [env_all_down] [] =
     Running [Log INFO ''Fetching commodity prices'',
              Log WARNING ''Failed to fetch %s: %s'', Log WARNING ''Failed to fetch %s: %s'', Log WARNING ''Failed to fetch %s: %s'', Log WARNING ''Failed to fetch %s: %s'', Log WARNING ''Failed to fetch %s: %s'',
              Log WARNING ''All fetches failed, will retry in %ds'', Sleep 60]"
proof -
  have h: "\<forall>src \<in> set COMMODITY_SOURCES. absent_or_nonpositive (price_api env_all_down) (snd src)"
    by (simp add: COMMODITY_SOURCES_def absent_or_nonpositive_def env_all_down_def
        provider_down_def fetch_try_def and_then_def)
  have c: "cycle 60 env_all_down [] =
     (Inr (), [Log INFO ''Fetching commodity prices'',
               Log WARNING ''Failed to fetch %s: %s'', Log WARNING ''Failed to fetch %s: %s'', Log WARNING ''Failed to fetch %s: %s'', Log WARNING ''Failed to fetch %s: %s'', Log WARNING ''Failed to fetch %s: %s'',
               Log WARNING ''All fetches failed, will retry in %ds'', Sleep 60])"
    by (simp add: cycle_def env_all_down_def fetch_eval provider_down_def)
  from all_absent_no_submission [OF h, of 60 "[]" "[]" chain_ok] h c
  show ?thesis by (simp add: COMMODITY_SOURCES_def)
qed



















section \<open>Prices below one millionth\<close>





section \<open>The identifiers of the registry\<close>

text \<open>
  The steps of the permutation written out on a state of 25 lanes and on lanes of 64 bits,
  so that a digest is computed by rewriting with these equations only.
\<close>

lemma upt5: "[0..<5] = [0, 1, 2, 3, 4]"
  by code_simp

lemma upt25:
  "[0..<25] = [0, 1, 2, 3, 4, 5, 6, 7, 8, 9, 10, 11, 12, 13, 14, 15, 16, 17, 18, 19, 20, 21, 22, 23, 24]"
  by code_simp

lemma columns_unroll:
  "map (column [a0, a1, a2, a3, a4, a5, a6, a7, a8, a9, a10, a11, a12, a13, a14, a15, a16, a17, a18, a19, a20, a21, a22, a23, a24]) [0..<5] =
   [lxor (lxor (lxor (lxor (a0) a5) a10) a15) a20,
    lxor (lxor (lxor (lxor (a1) a6) a11) a16) a21,
    lxor (lxor (lxor (lxor (a2) a7) a12) a17) a22,
    lxor (lxor (lxor (lxor (a3) a8) a13) a18) a23,
    lxor (lxor (lxor (lxor (a4) a9) a14) a19) a24]"
  by (simp add: column_def upt5)

lemma theta_d_unroll:
  "map (theta_d [c0, c1, c2, c3, c4]) [0..<5] =
   [lxor c4 (rotl64 c1 1),
    lxor c0 (rotl64 c2 1),
    lxor c1 (rotl64 c3 1),
    lxor c2 (rotl64 c4 1),
    lxor c3 (rotl64 c0 1)]"
  by (simp add: theta_d_def upt5)

lemma theta_apply_unroll:
  "theta_apply [d0, d1, d2, d3, d4] [a0, a1, a2, a3, a4, a5, a6, a7, a8, a9, a10, a11, a12, a13, a14, a15, a16, a17, a18, a19, a20, a21, a22, a23, a24] =
   [lxor a0 d0, lxor a1 d1, lxor a2 d2, lxor a3 d3, lxor a4 d4, lxor a5 d0, lxor a6 d1, lxor a7 d2,
    lxor a8 d3, lxor a9 d4, lxor a10 d0, lxor a11 d1, lxor a12 d2, lxor a13 d3, lxor a14 d4,
    lxor a15 d0, lxor a16 d1, lxor a17 d2, lxor a18 d3, lxor a19 d4, lxor a20 d0, lxor a21 d1,
    lxor a22 d2, lxor a23 d3, lxor a24 d4]"
  by (simp add: theta_apply_def upt25)

lemma rho_pi_unroll:
  "rho_pi [a0, a1, a2, a3, a4, a5, a6, a7, a8, a9, a10, a11, a12, a13, a14, a15, a16, a17, a18, a19, a20, a21, a22, a23, a24] =
   [rotl64 a0 0, rotl64 a6 44, rotl64 a12 43, rotl64 a18 21, rotl64 a24 14, rotl64 a3 28,
    rotl64 a9 20, rotl64 a10 3, rotl64 a16 45, rotl64 a22 61, rotl64 a1 1, rotl64 a7 6,
    rotl64 a13 25, rotl64 a19 8, rotl64 a20 18, rotl64 a4 27, rotl64 a5 36, rotl64 a11 10,
    rotl64 a17 15, rotl64 a23 56, rotl64 a2 62, rotl64 a8 55, rotl64 a14 39, rotl64 a15 41,
    rotl64 a21 2]"
  by (simp add: rho_pi_def rho_pi_src_def RHO_def upt25)

lemma chi_unroll:
  "chi [a0, a1, a2, a3, a4, a5, a6, a7, a8, a9, a10, a11, a12, a13, a14, a15, a16, a17, a18, a19, a20, a21, a22, a23, a24] =
   [lchi a0 a1 a2, lchi a1 a2 a3, lchi a2 a3 a4, lchi a3 a4 a0, lchi a4 a0 a1, lchi a5 a6 a7,
    lchi a6 a7 a8, lchi a7 a8 a9, lchi a8 a9 a5, lchi a9 a5 a6, lchi a10 a11 a12,
    lchi a11 a12 a13, lchi a12 a13 a14, lchi a13 a14 a10, lchi a14 a10 a11, lchi a15 a16 a17,
    lchi a16 a17 a18, lchi a17 a18 a19, lchi a18 a19 a15, lchi a19 a15 a16, lchi a20 a21 a22,
    lchi a21 a22 a23, lchi a22 a23 a24, lchi a23 a24 a20, lchi a24 a20 a21]"
  by (simp add: chi_def upt25)

lemma iota_unroll: "iota rc (w # ws) = lxor w rc # ws"
  by (simp add: iota_def)

lemma lxor_unroll:
  "lxor [x0, x1, x2, x3, x4, x5, x6, x7, x8, x9, x10, x11, x12, x13, x14, x15, x16, x17, x18, x19, x20,
        x21, x22, x23, x24, x25, x26, x27, x28, x29, x30, x31, x32, x33, x34, x35, x36, x37,
        x38, x39, x40, x41, x42, x43, x44, x45, x46, x47, x48, x49, x50, x51, x52, x53, x54,
        x55, x56, x57, x58, x59, x60, x61, x62, x63]
        [y0, y1, y2, y3, y4, y5, y6, y7, y8, y9, y10, y11, y12, y13, y14, y15, y16, y17, y18, y19, y20,
        y21, y22, y23, y24, y25, y26, y27, y28, y29, y30, y31, y32, y33, y34, y35, y36, y37,
        y38, y39, y40, y41, y42, y43, y44, y45, y46, y47, y48, y49, y50, y51, y52, y53, y54,
        y55, y56, y57, y58, y59, y60, y61, y62, y63] =
   [x0 \<noteq> y0, x1 \<noteq> y1, x2 \<noteq> y2, x3 \<noteq> y3, x4 \<noteq> y4, x5 \<noteq> y5,
    x6 \<noteq> y6, x7 \<noteq> y7, x8 \<noteq> y8, x9 \<noteq> y9, x10 \<noteq> y10,
    x11 \<noteq> y11, x12 \<noteq> y12, x13 \<noteq> y13, x14 \<noteq> y14, x15 \<noteq> y15,
    x16 \<noteq> y16, x17 \<noteq> y17, x18 \<noteq> y18, x19 \<noteq> y19, x20 \<noteq> y20,
    x21 \<noteq> y21, x22 \<noteq> y22, x23 \<noteq> y23, x24 \<noteq> y24, x25 \<noteq> y25,
    x26 \<noteq> y26, x27 \<noteq> y27, x28 \<noteq> y28, x29 \<noteq> y29, x30 \<noteq> y30,
    x31 \<noteq> y31, x32 \<noteq> y32, x33 \<noteq> y33, x34 \<noteq> y34, x35 \<noteq> y35,
    x36 \<noteq> y36, x37 \<noteq> y37, x38 \<noteq> y38, x39 \<noteq> y39, x40 \<noteq> y40,
    x41 \<noteq> y41, x42 \<noteq> y42, x43 \<noteq> y43, x44 \<noteq> y44, x45 \<noteq> y45,
    x46 \<noteq> y46, x47 \<noteq> y47, x48 \<noteq> y48, x49 \<noteq> y49, x50 \<noteq> y50,
    x51 \<noteq> y51, x52 \<noteq> y52, x53 \<noteq> y53, x54 \<noteq> y54, x55 \<noteq> y55,
    x56 \<noteq> y56, x57 \<noteq> y57, x58 \<noteq> y58, x59 \<noteq> y59, x60 \<noteq> y60,
    x61 \<noteq> y61, x62 \<noteq> y62, x63 \<noteq> y63]"
  by simp

lemma lchi_unroll:
  "lchi [x0, x1, x2, x3, x4, x5, x6, x7, x8, x9, x10, x11, x12, x13, x14, x15, x16, x17, x18, x19, x20,
        x21, x22, x23, x24, x25, x26, x27, x28, x29, x30, x31, x32, x33, x34, x35, x36, x37,
        x38, x39, x40, x41, x42, x43, x44, x45, x46, x47, x48, x49, x50, x51, x52, x53, x54,
        x55, x56, x57, x58, x59, x60, x61, x62, x63]
        [y0, y1, y2, y3, y4, y5, y6, y7, y8, y9, y10, y11, y12, y13, y14, y15, y16, y17, y18, y19, y20,
        y21, y22, y23, y24, y25, y26, y27, y28, y29, y30, y31, y32, y33, y34, y35, y36, y37,
        y38, y39, y40, y41, y42, y43, y44, y45, y46, y47, y48, y49, y50, y51, y52, y53, y54,
        y55, y56, y57, y58, y59, y60, y61, y62, y63]
        [z0, z1, z2, z3, z4, z5, z6, z7, z8, z9, z10, z11, z12, z13, z14, z15, z16, z17, z18, z19, z20,
        z21, z22, z23, z24, z25, z26, z27, z28, z29, z30, z31, z32, z33, z34, z35, z36, z37,
        z38, z39, z40, z41, z42, z43, z44, z45, z46, z47, z48, z49, z50, z51, z52, z53, z54,
        z55, z56, z57, z58, z59, z60, z61, z62, z63] =
   [x0 \<noteq> (\<not> y0 \<and> z0), x1 \<noteq> (\<not> y1 \<and> z1),
    x2 \<noteq> (\<not> y2 \<and> z2), x3 \<noteq> (\<not> y3 \<and> z3),
    x4 \<noteq> (\<not> y4 \<and> z4), x5 \<noteq> (\<not> y5 \<and> z5),
    x6 \<noteq> (\<not> y6 \<and> z6), x7 \<noteq> (\<not> y7 \<and> z7),
    x8 \<noteq> (\<not> y8 \<and> z8), x9 \<noteq> (\<not> y9 \<and> z9),
    x10 \<noteq> (\<not> y10 \<and> z10), x11 \<noteq> (\<not> y11 \<and> z11),
    x12 \<noteq> (\<not> y12 \<and> z12), x13 \<noteq> (\<not> y13 \<and> z13),
    x14 \<noteq> (\<not> y14 \<and> z14), x15 \<noteq> (\<not> y15 \<and> z15),
    x16 \<noteq> (\<not> y16 \<and> z16), x17 \<noteq> (\<not> y17 \<and> z17),
    x18 \<noteq> (\<not> y18 \<and> z18), x19 \<noteq> (\<not> y19 \<and> z19),
    x20 \<noteq> (\<not> y20 \<and> z20), x21 \<noteq> (\<not> y21 \<and> z21),
    x22 \<noteq> (\<not> y22 \<and> z22), x23 \<noteq> (\<not> y23 \<and> z23),
    x24 \<noteq> (\<not> y24 \<and> z24), x25 \<noteq> (\<not> y25 \<and> z25),
    x26 \<noteq> (\<not> y26 \<and> z26), x27 \<noteq> (\<not> y27 \<and> z27),
    x28 \<noteq> (\<not> y28 \<and> z28), x29 \<noteq> (\<not> y29 \<and> z29),
    x30 \<noteq> (\<not> y30 \<and> z30), x31 \<noteq> (\<not> y31 \<and> z31),
    x32 \<noteq> (\<not> y32 \<and> z32), x33 \<noteq> (\<not> y33 \<and> z33),
    x34 \<noteq> (\<not> y34 \<and> z34), x35 \<noteq> (\<not> y35 \<and> z35),
    x36 \<noteq> (\<not> y36 \<and> z36), x37 \<noteq> (\<not> y37 \<and> z37),
    x38 \<noteq> (\<not> y38 \<and> z38), x39 \<noteq> (\<not> y39 \<and> z39),
    x40 \<noteq> (\<not> y40 \<and> z40), x41 \<noteq> (\<not> y41 \<and> z41),
    x42 \<noteq> (\<not> y42 \<and> z42), x43 \<noteq> (\<not> y43 \<and> z43),
    x44 \<noteq> (\<not> y44 \<and> z44), x45 \<noteq> (\<not> y45 \<and> z45),
    x46 \<noteq> (\<not> y46 \<and> z46), x47 \<noteq> (\<not> y47 \<and> z47),
    x48 \<noteq> (\<not> y48 \<and> z48), x49 \<noteq> (\<not> y49 \<and> z49),
    x50 \<noteq> (\<not> y50 \<and> z50), x51 \<noteq> (\<not> y51 \<and> z51),
    x52 \<noteq> (\<not> y52 \<and> z52), x53 \<noteq> (\<not> y53 \<and> z53),
    x54 \<noteq> (\<not> y54 \<and> z54), x55 \<noteq> (\<not> y55 \<and> z55),
    x56 \<noteq> (\<not> y56 \<and> z56), x57 \<noteq> (\<not> y57 \<and> z57),
    x58 \<noteq> (\<not> y58 \<and> z58), x59 \<noteq> (\<not> y59 \<and> z59),
    x60 \<noteq> (\<not> y60 \<and> z60), x61 \<noteq> (\<not> y61 \<and> z61),
    x62 \<noteq> (\<not> y62 \<and> z62), x63 \<noteq> (\<not> y63 \<and> z63)]"
  by simp

lemma rotl64_0:
  "rotl64 [x0, x1, x2, x3, x4, x5, x6, x7, x8, x9, x10, x11, x12, x13, x14, x15, x16, x17, x18, x19, x20,
          x21, x22, x23, x24, x25, x26, x27, x28, x29, x30, x31, x32, x33, x34, x35, x36, x37,
          x38, x39, x40, x41, x42, x43, x44, x45, x46, x47, x48, x49, x50, x51, x52, x53, x54,
          x55, x56, x57, x58, x59, x60, x61, x62, x63] 0 =
   [x0, x1, x2, x3, x4, x5, x6, x7, x8, x9, x10, x11, x12, x13, x14, x15, x16, x17, x18, x19, x20,
    x21, x22, x23, x24, x25, x26, x27, x28, x29, x30, x31, x32, x33, x34, x35, x36, x37, x38,
    x39, x40, x41, x42, x43, x44, x45, x46, x47, x48, x49, x50, x51, x52, x53, x54, x55, x56,
    x57, x58, x59, x60, x61, x62, x63]"
  by (simp add: rotl64_def)

lemma rotl64_1:
  "rotl64 [x0, x1, x2, x3, x4, x5, x6, x7, x8, x9, x10, x11, x12, x13, x14, x15, x16, x17, x18, x19, x20,
          x21, x22, x23, x24, x25, x26, x27, x28, x29, x30, x31, x32, x33, x34, x35, x36, x37,
          x38, x39, x40, x41, x42, x43, x44, x45, x46, x47, x48, x49, x50, x51, x52, x53, x54,
          x55, x56, x57, x58, x59, x60, x61, x62, x63] 1 =
   [x63, x0, x1, x2, x3, x4, x5, x6, x7, x8, x9, x10, x11, x12, x13, x14, x15, x16, x17, x18, x19,
    x20, x21, x22, x23, x24, x25, x26, x27, x28, x29, x30, x31, x32, x33, x34, x35, x36, x37,
    x38, x39, x40, x41, x42, x43, x44, x45, x46, x47, x48, x49, x50, x51, x52, x53, x54, x55,
    x56, x57, x58, x59, x60, x61, x62]"
  by (simp add: rotl64_def)

lemma rotl64_2:
  "rotl64 [x0, x1, x2, x3, x4, x5, x6, x7, x8, x9, x10, x11, x12, x13, x14, x15, x16, x17, x18, x19, x20,
          x21, x22, x23, x24, x25, x26, x27, x28, x29, x30, x31, x32, x33, x34, x35, x36, x37,
          x38, x39, x40, x41, x42, x43, x44, x45, x46, x47, x48, x49, x50, x51, x52, x53, x54,
          x55, x56, x57, x58, x59, x60, x61, x62, x63] 2 =
   [x62, x63, x0, x1, x2, x3, x4, x5, x6, x7, x8, x9, x10, x11, x12, x13, x14, x15, x16, x17, x18,
    x19, x20, x21, x22, x23, x24, x25, x26, x27, x28, x29, x30, x31, x32, x33, x34, x35, x36,
    x37, x38, x39, x40, x41, x42, x43, x44, x45, x46, x47, x48, x49, x50, x51, x52, x53, x54,
    x55, x56, x57, x58, x59, x60, x61]"
  by (simp add: rotl64_def)

lemma rotl64_3:
  "rotl64 [x0, x1, x2, x3, x4, x5, x6, x7, x8, x9, x10, x11, x12, x13, x14, x15, x16, x17, x18, x19, x20,
          x21, x22, x23, x24, x25, x26, x27, x28, x29, x30, x31, x32, x33, x34, x35, x36, x37,
          x38, x39, x40, x41, x42, x43, x44, x45, x46, x47, x48, x49, x50, x51, x52, x53, x54,
          x55, x56, x57, x58, x59, x60, x61, x62, x63] 3 =
   [x61, x62, x63, x0, x1, x2, x3, x4, x5, x6, x7, x8, x9, x10, x11, x12, x13, x14, x15, x16, x17,
    x18, x19, x20, x21, x22, x23, x24, x25, x26, x27, x28, x29, x30, x31, x32, x33, x34, x35,
    x36, x37, x38, x39, x40, x41, x42, x43, x44, x45, x46, x47, x48, x49, x50, x51, x52, x53,
    x54, x55, x56, x57, x58, x59, x60]"
  by (simp add: rotl64_def)

lemma rotl64_6:
  "rotl64 [x0, x1, x2, x3, x4, x5, x6, x7, x8, x9, x10, x11, x12, x13, x14, x15, x16, x17, x18, x19, x20,
          x21, x22, x23, x24, x25, x26, x27, x28, x29, x30, x31, x32, x33, x34, x35, x36, x37,
          x38, x39, x40, x41, x42, x43, x44, x45, x46, x47, x48, x49, x50, x51, x52, x53, x54,
          x55, x56, x57, x58, x59, x60, x61, x62, x63] 6 =
   [x58, x59, x60, x61, x62, x63, x0, x1, x2, x3, x4, x5, x6, x7, x8, x9, x10, x11, x12, x13, x14,
    x15, x16, x17, x18, x19, x20, x21, x22, x23, x24, x25, x26, x27, x28, x29, x30, x31, x32,
    x33, x34, x35, x36, x37, x38, x39, x40, x41, x42, x43, x44, x45, x46, x47, x48, x49, x50,
    x51, x52, x53, x54, x55, x56, x57]"
  by (simp add: rotl64_def)

lemma rotl64_8:
  "rotl64 [x0, x1, x2, x3, x4, x5, x6, x7, x8, x9, x10, x11, x12, x13, x14, x15, x16, x17, x18, x19, x20,
          x21, x22, x23, x24, x25, x26, x27, x28, x29, x30, x31, x32, x33, x34, x35, x36, x37,
          x38, x39, x40, x41, x42, x43, x44, x45, x46, x47, x48, x49, x50, x51, x52, x53, x54,
          x55, x56, x57, x58, x59, x60, x61, x62, x63] 8 =
   [x56, x57, x58, x59, x60, x61, x62, x63, x0, x1, x2, x3, x4, x5, x6, x7, x8, x9, x10, x11, x12,
    x13, x14, x15, x16, x17, x18, x19, x20, x21, x22, x23, x24, x25, x26, x27, x28, x29, x30,
    x31, x32, x33, x34, x35, x36, x37, x38, x39, x40, x41, x42, x43, x44, x45, x46, x47, x48,
    x49, x50, x51, x52, x53, x54, x55]"
  by (simp add: rotl64_def)

lemma rotl64_10:
  "rotl64 [x0, x1, x2, x3, x4, x5, x6, x7, x8, x9, x10, x11, x12, x13, x14, x15, x16, x17, x18, x19, x20,
          x21, x22, x23, x24, x25, x26, x27, x28, x29, x30, x31, x32, x33, x34, x35, x36, x37,
          x38, x39, x40, x41, x42, x43, x44, x45, x46, x47, x48, x49, x50, x51, x52, x53, x54,
          x55, x56, x57, x58, x59, x60, x61, x62, x63] 10 =
   [x54, x55, x56, x57, x58, x59, x60, x61, x62, x63, x0, x1, x2, x3, x4, x5, x6, x7, x8, x9, x10,
    x11, x12, x13, x14, x15, x16, x17, x18, x19, x20, x21, x22, x23, x24, x25, x26, x27, x28,
    x29, x30, x31, x32, x33, x34, x35, x36, x37, x38, x39, x40, x41, x42, x43, x44, x45, x46,
    x47, x48, x49, x50, x51, x52, x53]"
  by (simp add: rotl64_def)

lemma rotl64_14:
  "rotl64 [x0, x1, x2, x3, x4, x5, x6, x7, x8, x9, x10, x11, x12, x13, x14, x15, x16, x17, x18, x19, x20,
          x21, x22, x23, x24, x25, x26, x27, x28, x29, x30, x31, x32, x33, x34, x35, x36, x37,
          x38, x39, x40, x41, x42, x43, x44, x45, x46, x47, x48, x49, x50, x51, x52, x53, x54,
          x55, x56, x57, x58, x59, x60, x61, x62, x63] 14 =
   [x50, x51, x52, x53, x54, x55, x56, x57, x58, x59, x60, x61, x62, x63, x0, x1, x2, x3, x4, x5,
    x6, x7, x8, x9, x10, x11, x12, x13, x14, x15, x16, x17, x18, x19, x20, x21, x22, x23, x24,
    x25, x26, x27, x28, x29, x30, x31, x32, x33, x34, x35, x36, x37, x38, x39, x40, x41, x42,
    x43, x44, x45, x46, x47, x48, x49]"
  by (simp add: rotl64_def)

lemma rotl64_15:
  "rotl64 [x0, x1, x2, x3, x4, x5, x6, x7, x8, x9, x10, x11, x12, x13, x14, x15, x16, x17, x18, x19, x20,
          x21, x22, x23, x24, x25, x26, x27, x28, x29, x30, x31, x32, x33, x34, x35, x36, x37,
          x38, x39, x40, x41, x42, x43, x44, x45, x46, x47, x48, x49, x50, x51, x52, x53, x54,
          x55, x56, x57, x58, x59, x60, x61, x62, x63] 15 =
   [x49, x50, x51, x52, x53, x54, x55, x56, x57, x58, x59, x60, x61, x62, x63, x0, x1, x2, x3, x4,
    x5, x6, x7, x8, x9, x10, x11, x12, x13, x14, x15, x16, x17, x18, x19, x20, x21, x22, x23,
    x24, x25, x26, x27, x28, x29, x30, x31, x32, x33, x34, x35, x36, x37, x38, x39, x40, x41,
    x42, x43, x44, x45, x46, x47, x48]"
  by (simp add: rotl64_def)

lemma rotl64_18:
  "rotl64 [x0, x1, x2, x3, x4, x5, x6, x7, x8, x9, x10, x11, x12, x13, x14, x15, x16, x17, x18, x19, x20,
          x21, x22, x23, x24, x25, x26, x27, x28, x29, x30, x31, x32, x33, x34, x35, x36, x37,
          x38, x39, x40, x41, x42, x43, x44, x45, x46, x47, x48, x49, x50, x51, x52, x53, x54,
          x55, x56, x57, x58, x59, x60, x61, x62, x63] 18 =
   [x46, x47, x48, x49, x50, x51, x52, x53, x54, x55, x56, x57, x58, x59, x60, x61, x62, x63, x0,
    x1, x2, x3, x4, x5, x6, x7, x8, x9, x10, x11, x12, x13, x14, x15, x16, x17, x18, x19, x20,
    x21, x22, x23, x24, x25, x26, x27, x28, x29, x30, x31, x32, x33, x34, x35, x36, x37, x38,
    x39, x40, x41, x42, x43, x44, x45]"
  by (simp add: rotl64_def)

lemma rotl64_20:
  "rotl64 [x0, x1, x2, x3, x4, x5, x6, x7, x8, x9, x10, x11, x12, x13, x14, x15, x16, x17, x18, x19, x20,
          x21, x22, x23, x24, x25, x26, x27, x28, x29, x30, x31, x32, x33, x34, x35, x36, x37,
          x38, x39, x40, x41, x42, x43, x44, x45, x46, x47, x48, x49, x50, x51, x52, x53, x54,
          x55, x56, x57, x58, x59, x60, x61, x62, x63] 20 =
   [x44, x45, x46, x47, x48, x49, x50, x51, x52, x53, x54, x55, x56, x57, x58, x59, x60, x61, x62,
    x63, x0, x1, x2, x3, x4, x5, x6, x7, x8, x9, x10, x11, x12, x13, x14, x15, x16, x17, x18,
    x19, x20, x21, x22, x23, x24, x25, x26, x27, x28, x29, x30, x31, x32, x33, x34, x35, x36,
    x37, x38, x39, x40, x41, x42, x43]"
  by (simp add: rotl64_def)

lemma rotl64_21:
  "rotl64 [x0, x1, x2, x3, x4, x5, x6, x7, x8, x9, x10, x11, x12, x13, x14, x15, x16, x17, x18, x19, x20,
          x21, x22, x23, x24, x25, x26, x27, x28, x29, x30, x31, x32, x33, x34, x35, x36, x37,
          x38, x39, x40, x41, x42, x43, x44, x45, x46, x47, x48, x49, x50, x51, x52, x53, x54,
          x55, x56, x57, x58, x59, x60, x61, x62, x63] 21 =
   [x43, x44, x45, x46, x47, x48, x49, x50, x51, x52, x53, x54, x55, x56, x57, x58, x59, x60, x61,
    x62, x63, x0, x1, x2, x3, x4, x5, x6, x7, x8, x9, x10, x11, x12, x13, x14, x15, x16, x17,
    x18, x19, x20, x21, x22, x23, x24, x25, x26, x27, x28, x29, x30, x31, x32, x33, x34, x35,
    x36, x37, x38, x39, x40, x41, x42]"
  by (simp add: rotl64_def)

lemma rotl64_25:
  "rotl64 [x0, x1, x2, x3, x4, x5, x6, x7, x8, x9, x10, x11, x12, x13, x14, x15, x16, x17, x18, x19, x20,
          x21, x22, x23, x24, x25, x26, x27, x28, x29, x30, x31, x32, x33, x34, x35, x36, x37,
          x38, x39, x40, x41, x42, x43, x44, x45, x46, x47, x48, x49, x50, x51, x52, x53, x54,
          x55, x56, x57, x58, x59, x60, x61, x62, x63] 25 =
   [x39, x40, x41, x42, x43, x44, x45, x46, x47, x48, x49, x50, x51, x52, x53, x54, x55, x56, x57,
    x58, x59, x60, x61, x62, x63, x0, x1, x2, x3, x4, x5, x6, x7, x8, x9, x10, x11, x12, x13,
    x14, x15, x16, x17, x18, x19, x20, x21, x22, x23, x24, x25, x26, x27, x28, x29, x30, x31,
    x32, x33, x34, x35, x36, x37, x38]"
  by (simp add: rotl64_def)

lemma rotl64_27:
  "rotl64 [x0, x1, x2, x3, x4, x5, x6, x7, x8, x9, x10, x11, x12, x13, x14, x15, x16, x17, x18, x19, x20,
          x21, x22, x23, x24, x25, x26, x27, x28, x29, x30, x31, x32, x33, x34, x35, x36, x37,
          x38, x39, x40, x41, x42, x43, x44, x45, x46, x47, x48, x49, x50, x51, x52, x53, x54,
          x55, x56, x57, x58, x59, x60, x61, x62, x63] 27 =
   [x37, x38, x39, x40, x41, x42, x43, x44, x45, x46, x47, x48, x49, x50, x51, x52, x53, x54, x55,
    x56, x57, x58, x59, x60, x61, x62, x63, x0, x1, x2, x3, x4, x5, x6, x7, x8, x9, x10, x11,
    x12, x13, x14, x15, x16, x17, x18, x19, x20, x21, x22, x23, x24, x25, x26, x27, x28, x29,
    x30, x31, x32, x33, x34, x35, x36]"
  by (simp add: rotl64_def)

lemma rotl64_28:
  "rotl64 [x0, x1, x2, x3, x4, x5, x6, x7, x8, x9, x10, x11, x12, x13, x14, x15, x16, x17, x18, x19, x20,
          x21, x22, x23, x24, x25, x26, x27, x28, x29, x30, x31, x32, x33, x34, x35, x36, x37,
          x38, x39, x40, x41, x42, x43, x44, x45, x46, x47, x48, x49, x50, x51, x52, x53, x54,
          x55, x56, x57, x58, x59, x60, x61, x62, x63] 28 =
   [x36, x37, x38, x39, x40, x41, x42, x43, x44, x45, x46, x47, x48, x49, x50, x51, x52, x53, x54,
    x55, x56, x57, x58, x59, x60, x61, x62, x63, x0, x1, x2, x3, x4, x5, x6, x7, x8, x9, x10,
    x11, x12, x13, x14, x15, x16, x17, x18, x19, x20, x21, x22, x23, x24, x25, x26, x27, x28,
    x29, x30, x31, x32, x33, x34, x35]"
  by (simp add: rotl64_def)

lemma rotl64_36:
  "rotl64 [x0, x1, x2, x3, x4, x5, x6, x7, x8, x9, x10, x11, x12, x13, x14, x15, x16, x17, x18, x19, x20,
          x21, x22, x23, x24, x25, x26, x27, x28, x29, x30, x31, x32, x33, x34, x35, x36, x37,
          x38, x39, x40, x41, x42, x43, x44, x45, x46, x47, x48, x49, x50, x51, x52, x53, x54,
          x55, x56, x57, x58, x59, x60, x61, x62, x63] 36 =
   [x28, x29, x30, x31, x32, x33, x34, x35, x36, x37, x38, x39, x40, x41, x42, x43, x44, x45, x46,
    x47, x48, x49, x50, x51, x52, x53, x54, x55, x56, x57, x58, x59, x60, x61, x62, x63, x0,
    x1, x2, x3, x4, x5, x6, x7, x8, x9, x10, x11, x12, x13, x14, x15, x16, x17, x18, x19, x20,
    x21, x22, x23, x24, x25, x26, x27]"
  by (simp add: rotl64_def)

lemma rotl64_39:
  "rotl64 [x0, x1, x2, x3, x4, x5, x6, x7, x8, x9, x10, x11, x12, x13, x14, x15, x16, x17, x18, x19, x20,
          x21, x22, x23, x24, x25, x26, x27, x28, x29, x30, x31, x32, x33, x34, x35, x36, x37,
          x38, x39, x40, x41, x42, x43, x44, x45, x46, x47, x48, x49, x50, x51, x52, x53, x54,
          x55, x56, x57, x58, x59, x60, x61, x62, x63] 39 =
   [x25, x26, x27, x28, x29, x30, x31, x32, x33, x34, x35, x36, x37, x38, x39, x40, x41, x42, x43,
    x44, x45, x46, x47, x48, x49, x50, x51, x52, x53, x54, x55, x56, x57, x58, x59, x60, x61,
    x62, x63, x0, x1, x2, x3, x4, x5, x6, x7, x8, x9, x10, x11, x12, x13, x14, x15, x16, x17,
    x18, x19, x20, x21, x22, x23, x24]"
  by (simp add: rotl64_def)

lemma rotl64_41:
  "rotl64 [x0, x1, x2, x3, x4, x5, x6, x7, x8, x9, x10, x11, x12, x13, x14, x15, x16, x17, x18, x19, x20,
          x21, x22, x23, x24, x25, x26, x27, x28, x29, x30, x31, x32, x33, x34, x35, x36, x37,
          x38, x39, x40, x41, x42, x43, x44, x45, x46, x47, x48, x49, x50, x51, x52, x53, x54,
          x55, x56, x57, x58, x59, x60, x61, x62, x63] 41 =
   [x23, x24, x25, x26, x27, x28, x29, x30, x31, x32, x33, x34, x35, x36, x37, x38, x39, x40, x41,
    x42, x43, x44, x45, x46, x47, x48, x49, x50, x51, x52, x53, x54, x55, x56, x57, x58, x59,
    x60, x61, x62, x63, x0, x1, x2, x3, x4, x5, x6, x7, x8, x9, x10, x11, x12, x13, x14, x15,
    x16, x17, x18, x19, x20, x21, x22]"
  by (simp add: rotl64_def)

lemma rotl64_43:
  "rotl64 [x0, x1, x2, x3, x4, x5, x6, x7, x8, x9, x10, x11, x12, x13, x14, x15, x16, x17, x18, x19, x20,
          x21, x22, x23, x24, x25, x26, x27, x28, x29, x30, x31, x32, x33, x34, x35, x36, x37,
          x38, x39, x40, x41, x42, x43, x44, x45, x46, x47, x48, x49, x50, x51, x52, x53, x54,
          x55, x56, x57, x58, x59, x60, x61, x62, x63] 43 =
   [x21, x22, x23, x24, x25, x26, x27, x28, x29, x30, x31, x32, x33, x34, x35, x36, x37, x38, x39,
    x40, x41, x42, x43, x44, x45, x46, x47, x48, x49, x50, x51, x52, x53, x54, x55, x56, x57,
    x58, x59, x60, x61, x62, x63, x0, x1, x2, x3, x4, x5, x6, x7, x8, x9, x10, x11, x12, x13,
    x14, x15, x16, x17, x18, x19, x20]"
  by (simp add: rotl64_def)

lemma rotl64_44:
  "rotl64 [x0, x1, x2, x3, x4, x5, x6, x7, x8, x9, x10, x11, x12, x13, x14, x15, x16, x17, x18, x19, x20,
          x21, x22, x23, x24, x25, x26, x27, x28, x29, x30, x31, x32, x33, x34, x35, x36, x37,
          x38, x39, x40, x41, x42, x43, x44, x45, x46, x47, x48, x49, x50, x51, x52, x53, x54,
          x55, x56, x57, x58, x59, x60, x61, x62, x63] 44 =
   [x20, x21, x22, x23, x24, x25, x26, x27, x28, x29, x30, x31, x32, x33, x34, x35, x36, x37, x38,
    x39, x40, x41, x42, x43, x44, x45, x46, x47, x48, x49, x50, x51, x52, x53, x54, x55, x56,
    x57, x58, x59, x60, x61, x62, x63, x0, x1, x2, x3, x4, x5, x6, x7, x8, x9, x10, x11, x12,
    x13, x14, x15, x16, x17, x18, x19]"
  by (simp add: rotl64_def)

lemma rotl64_45:
  "rotl64 [x0, x1, x2, x3, x4, x5, x6, x7, x8, x9, x10, x11, x12, x13, x14, x15, x16, x17, x18, x19, x20,
          x21, x22, x23, x24, x25, x26, x27, x28, x29, x30, x31, x32, x33, x34, x35, x36, x37,
          x38, x39, x40, x41, x42, x43, x44, x45, x46, x47, x48, x49, x50, x51, x52, x53, x54,
          x55, x56, x57, x58, x59, x60, x61, x62, x63] 45 =
   [x19, x20, x21, x22, x23, x24, x25, x26, x27, x28, x29, x30, x31, x32, x33, x34, x35, x36, x37,
    x38, x39, x40, x41, x42, x43, x44, x45, x46, x47, x48, x49, x50, x51, x52, x53, x54, x55,
    x56, x57, x58, x59, x60, x61, x62, x63, x0, x1, x2, x3, x4, x5, x6, x7, x8, x9, x10, x11,
    x12, x13, x14, x15, x16, x17, x18]"
  by (simp add: rotl64_def)

lemma rotl64_55:
  "rotl64 [x0, x1, x2, x3, x4, x5, x6, x7, x8, x9, x10, x11, x12, x13, x14, x15, x16, x17, x18, x19, x20,
          x21, x22, x23, x24, x25, x26, x27, x28, x29, x30, x31, x32, x33, x34, x35, x36, x37,
          x38, x39, x40, x41, x42, x43, x44, x45, x46, x47, x48, x49, x50, x51, x52, x53, x54,
          x55, x56, x57, x58, x59, x60, x61, x62, x63] 55 =
   [x9, x10, x11, x12, x13, x14, x15, x16, x17, x18, x19, x20, x21, x22, x23, x24, x25, x26, x27,
    x28, x29, x30, x31, x32, x33, x34, x35, x36, x37, x38, x39, x40, x41, x42, x43, x44, x45,
    x46, x47, x48, x49, x50, x51, x52, x53, x54, x55, x56, x57, x58, x59, x60, x61, x62, x63,
    x0, x1, x2, x3, x4, x5, x6, x7, x8]"
  by (simp add: rotl64_def)

lemma rotl64_56:
  "rotl64 [x0, x1, x2, x3, x4, x5, x6, x7, x8, x9, x10, x11, x12, x13, x14, x15, x16, x17, x18, x19, x20,
          x21, x22, x23, x24, x25, x26, x27, x28, x29, x30, x31, x32, x33, x34, x35, x36, x37,
          x38, x39, x40, x41, x42, x43, x44, x45, x46, x47, x48, x49, x50, x51, x52, x53, x54,
          x55, x56, x57, x58, x59, x60, x61, x62, x63] 56 =
   [x8, x9, x10, x11, x12, x13, x14, x15, x16, x17, x18, x19, x20, x21, x22, x23, x24, x25, x26,
    x27, x28, x29, x30, x31, x32, x33, x34, x35, x36, x37, x38, x39, x40, x41, x42, x43, x44,
    x45, x46, x47, x48, x49, x50, x51, x52, x53, x54, x55, x56, x57, x58, x59, x60, x61, x62,
    x63, x0, x1, x2, x3, x4, x5, x6, x7]"
  by (simp add: rotl64_def)

lemma rotl64_61:
  "rotl64 [x0, x1, x2, x3, x4, x5, x6, x7, x8, x9, x10, x11, x12, x13, x14, x15, x16, x17, x18, x19, x20,
          x21, x22, x23, x24, x25, x26, x27, x28, x29, x30, x31, x32, x33, x34, x35, x36, x37,
          x38, x39, x40, x41, x42, x43, x44, x45, x46, x47, x48, x49, x50, x51, x52, x53, x54,
          x55, x56, x57, x58, x59, x60, x61, x62, x63] 61 =
   [x3, x4, x5, x6, x7, x8, x9, x10, x11, x12, x13, x14, x15, x16, x17, x18, x19, x20, x21, x22,
    x23, x24, x25, x26, x27, x28, x29, x30, x31, x32, x33, x34, x35, x36, x37, x38, x39, x40,
    x41, x42, x43, x44, x45, x46, x47, x48, x49, x50, x51, x52, x53, x54, x55, x56, x57, x58,
    x59, x60, x61, x62, x63, x0, x1, x2]"
  by (simp add: rotl64_def)

lemma rotl64_62:
  "rotl64 [x0, x1, x2, x3, x4, x5, x6, x7, x8, x9, x10, x11, x12, x13, x14, x15, x16, x17, x18, x19, x20,
          x21, x22, x23, x24, x25, x26, x27, x28, x29, x30, x31, x32, x33, x34, x35, x36, x37,
          x38, x39, x40, x41, x42, x43, x44, x45, x46, x47, x48, x49, x50, x51, x52, x53, x54,
          x55, x56, x57, x58, x59, x60, x61, x62, x63] 62 =
   [x2, x3, x4, x5, x6, x7, x8, x9, x10, x11, x12, x13, x14, x15, x16, x17, x18, x19, x20, x21,
    x22, x23, x24, x25, x26, x27, x28, x29, x30, x31, x32, x33, x34, x35, x36, x37, x38, x39,
    x40, x41, x42, x43, x44, x45, x46, x47, x48, x49, x50, x51, x52, x53, x54, x55, x56, x57,
    x58, x59, x60, x61, x62, x63, x0, x1]"
  by (simp add: rotl64_def)

lemmas rotl64_unroll = rotl64_0 rotl64_1 rotl64_2 rotl64_3 rotl64_6 rotl64_8 rotl64_10 rotl64_14 rotl64_15 rotl64_18 rotl64_20 rotl64_21 rotl64_25 rotl64_27 rotl64_28 rotl64_36 rotl64_39 rotl64_41 rotl64_43 rotl64_44 rotl64_45 rotl64_55 rotl64_56 rotl64_61 rotl64_62

lemma bit_eval:
  "(True \<noteq> True) = False" "(True \<noteq> False) = True"
  "(False \<noteq> True) = True" "(False \<noteq> False) = False"
  "(\<not> True \<and> b) = False" "(\<not> False \<and> b) = b"
  by simp_all

lemmas keccak_eval =
  keccak_round_def theta_def columns_unroll theta_d_unroll theta_apply_unroll rho_pi_unroll
  chi_unroll iota_unroll lxor_unroll lchi_unroll rotl64_unroll bit_eval

lemma bits_numeral: "bits (numeral k) n = odd n # bits (pred_numeral k) (n div 2)"
  by (simp add: numeral_eq_Suc)


lemma upt8: "[0..<8] = [0, 1, 2, 3, 4, 5, 6, 7]"
  by code_simp

lemma upt17: "[0..<17] = [0, 1, 2, 3, 4, 5, 6, 7, 8, 9, 10, 11, 12, 13, 14, 15, 16]"
  by code_simp

lemma replicate_numeral: "replicate (numeral k) x = x # replicate (pred_numeral k) x"
  by (simp add: numeral_eq_Suc)

lemmas sponge_eval =
  keccak256_def bytes_of_text_def pad_def Let_def lanes_of_block_def xor_block_def absorb.simps
  keccak_f_def RC_def bits_numeral upt17 replicate_numeral

lemmas digest_eval = bytes_of_lane_def upt8

text \<open>The known answer for the empty message.\<close>

lemma keccak256_empty:
  "keccak256 [] =
     [0xc5, 0xd2, 0x46, 0x01, 0x86, 0xf7, 0x23, 0x3c,
      0x92, 0x7e, 0x7d, 0xb2, 0xdc, 0xc7, 0x03, 0xc0,
      0xe5, 0x00, 0xb6, 0x53, 0xca, 0x82, 0x27, 0x3b,
      0x7b, 0xfa, 0xd8, 0x04, 0x5d, 0x85, 0xa4, 0x70]"
  apply (simp add: sponge_eval)
  apply (simp only: keccak_eval)
  apply (simp add: digest_eval)
  done

lemma digest_CRUDE_OIL_WTI:
  "keccak256 (bytes_of_text ''CRUDE_OIL_WTI'') =
     [0xf9, 0xd2, 0x5a, 0xa4, 0x55, 0x0a, 0xa4, 0x5b,
      0x44, 0x6e, 0xc0, 0xea, 0x1a, 0xb0, 0x8e, 0xdc,
      0xb0, 0xf5, 0x19, 0xb7, 0xc1, 0x61, 0xd6, 0x29,
      0x94, 0x89, 0x75, 0xfe, 0x13, 0x0c, 0x53, 0xdc]"
  apply (simp add: sponge_eval)
  apply (simp only: keccak_eval)
  apply (simp add: digest_eval)
  done

lemma digest_CRUDE_OIL_BRENT:
  "keccak256 (bytes_of_text ''CRUDE_OIL_BRENT'') =
     [0x87, 0xc6, 0x78, 0xfe, 0x6c, 0xc1, 0x0f, 0xab,
      0x7e, 0x77, 0x95, 0x62, 0x04, 0xad, 0xb8, 0x05,
      0x17, 0x28, 0xcf, 0xe3, 0x7c, 0xce, 0x9c, 0x91,
      0x27, 0xec, 0x75, 0x66, 0x5d, 0xbb, 0x14, 0x85]"
  apply (simp add: sponge_eval)
  apply (simp only: keccak_eval)
  apply (simp add: digest_eval)
  done

lemma digest_NATURAL_GAS:
  "keccak256 (bytes_of_text ''NATURAL_GAS'') =
     [0xe3, 0x7a, 0x9b, 0xac, 0x1c, 0xc5, 0xed, 0x44,
      0xaf, 0x7f, 0x04, 0x43, 0xce, 0x0f, 0xd7, 0x07,
      0x2a, 0x6b, 0x85, 0xc1, 0xba, 0x17, 0xe6, 0x33,
      0x02, 0x6a, 0xa5, 0x1e, 0xa7, 0xb1, 0x7f, 0x30]"
  apply (simp add: sponge_eval)
  apply (simp only: keccak_eval)
  apply (simp add: digest_eval)
  done

lemma digest_XAU_USD:
  "keccak256 (bytes_of_text ''XAU_USD'') =
     [0x22, 0xc6, 0xf2, 0x63, 0xaf, 0x01, 0xbc, 0xea,
      0x9f, 0x69, 0x9b, 0xcc, 0x6e, 0x0a, 0x77, 0x4c,
      0x4e, 0x35, 0x58, 0x92, 0x3d, 0x02, 0xa3, 0x4c,
      0xc6, 0x84, 0x06, 0x39, 0x4f, 0x17, 0xf4, 0x11]"
  apply (simp add: sponge_eval)
  apply (simp only: keccak_eval)
  apply (simp add: digest_eval)
  done

lemma digest_WHEAT_USD:
  "keccak256 (bytes_of_text ''WHEAT_USD'') =
     [0x0e, 0x54, 0x5f, 0xaf, 0xd2, 0xf2, 0xa0, 0x0d,
      0x90, 0xa9, 0xef, 0x44, 0x9c, 0xc2, 0x70, 0xd6,
      0x28, 0x60, 0x6d, 0xba, 0x8a, 0x19, 0x36, 0x39,
      0x4f, 0x1a, 0xe3, 0x05, 0x77, 0x84, 0x9c, 0x7c]"
  apply (simp add: sponge_eval)
  apply (simp only: keccak_eval)
  apply (simp add: digest_eval)
  done

text \<open>
  Claim C9. The identifier of a commodity is a function of its name alone: the registry
  holds for each name the Keccak-256 digest of its bytes, and computing the identifiers
  again from the names gives the values of the registry. The five names of the registry
  are distinct and have five pairwise distinct identifiers.
\<close>

theorem commodity_ids_distinct:
  "map snd COMMODITY_IDS =
     map (\<lambda>(name, ticker). keccak256 (bytes_of_text name)) COMMODITY_SOURCES \<and>
   COMMODITY_IDS =
     [(''CRUDE_OIL_WTI'',
       [0xf9, 0xd2, 0x5a, 0xa4, 0x55, 0x0a, 0xa4, 0x5b,
        0x44, 0x6e, 0xc0, 0xea, 0x1a, 0xb0, 0x8e, 0xdc,
        0xb0, 0xf5, 0x19, 0xb7, 0xc1, 0x61, 0xd6, 0x29,
        0x94, 0x89, 0x75, 0xfe, 0x13, 0x0c, 0x53, 0xdc]),
      (''CRUDE_OIL_BRENT'',
       [0x87, 0xc6, 0x78, 0xfe, 0x6c, 0xc1, 0x0f, 0xab,
        0x7e, 0x77, 0x95, 0x62, 0x04, 0xad, 0xb8, 0x05,
        0x17, 0x28, 0xcf, 0xe3, 0x7c, 0xce, 0x9c, 0x91,
        0x27, 0xec, 0x75, 0x66, 0x5d, 0xbb, 0x14, 0x85]),
      (''NATURAL_GAS'',
       [0xe3, 0x7a, 0x9b, 0xac, 0x1c, 0xc5, 0xed, 0x44,
        0xaf, 0x7f, 0x04, 0x43, 0xce, 0x0f, 0xd7, 0x07,
        0x2a, 0x6b, 0x85, 0xc1, 0xba, 0x17, 0xe6, 0x33,
        0x02, 0x6a, 0xa5, 0x1e, 0xa7, 0xb1, 0x7f, 0x30]),
      (''XAU_USD'',
       [0x22, 0xc6, 0xf2, 0x63, 0xaf, 0x01, 0xbc, 0xea,
        0x9f, 0x69, 0x9b, 0xcc, 0x6e, 0x0a, 0x77, 0x4c,
        0x4e, 0x35, 0x58, 0x92, 0x3d, 0x02, 0xa3, 0x4c,
        0xc6, 0x84, 0x06, 0x39, 0x4f, 0x17, 0xf4, 0x11]),
      (''WHEAT_USD'',
       [0x0e, 0x54, 0x5f, 0xaf, 0xd2, 0xf2, 0xa0, 0x0d,
        0x90, 0xa9, 0xef, 0x44, 0x9c, 0xc2, 0x70, 0xd6,
        0x28, 0x60, 0x6d, 0xba, 0x8a, 0x19, 0x36, 0x39,
        0x4f, 0x1a, 0xe3, 0x05, 0x77, 0x84, 0x9c, 0x7c])] \<and>
   distinct (map fst COMMODITY_IDS) \<and> distinct (map snd COMMODITY_IDS)"
  by (simp add: COMMODITY_IDS_def COMMODITY_SOURCES_def digest_CRUDE_OIL_WTI
      digest_CRUDE_OIL_BRENT digest_NATURAL_GAS digest_XAU_USD digest_WHEAT_USD)

section \<open>A submission error leaves the loop\<close>

text \<open>
  Claim C1, as stated, fails: \<^verbatim>\<open>main\<close> has no handler around the body of its loop.
  With prices fetched and a chain client that raises \<^verbatim>\<open>ConnectionError\<close>, the first
  iteration ends the process: the error is logged, nothing sleeps, and the second
  iteration never starts.
\<close>

theorem submission_error_counterexample:
  "main_loop 60 [env_submit_fails, env_submit_fails] [] =
     Terminated ConnectionError
       [Log INFO ''Fetching commodity prices'', Log INFO ''  %-20s  $%.4f  (raw: %d)'', Log INFO ''  %-20s  $%.4f  (raw: %d)'', Log INFO ''  %-20s  $%.4f  (raw: %d)'', Log INFO ''  %-20s  $%.4f  (raw: %d)'', Log INFO ''  %-20s  $%.4f  (raw: %d)'',
        Log ERROR ''Submission error: %s'']"
  by (simp add: cycle_def env_submit_fails_def fetch_eval provider_const_def submit_eval)

text \<open>
  Claim C1, amended: a submission-layer error is logged and raised again by
  \<^verbatim>\<open>submit_prices\<close>; nothing in \<^verbatim>\<open>main\<close> catches it, so it leaves the loop and ends
  the process, whatever iterations would have followed.
\<close>

theorem submission_error_terminates:
  assumes "fetch_all_prices (price_api w) (tr @ [Log INFO ''Fetching commodity prices'']) = (Inr prices, tr1)"
    and "prices \<noteq> []"
    and "build_batch prices = Inr (commodities, price_list)"
    and "submit_try (chain_client w) commodities price_list tr1 = (Inl x, tr2)"
    and "is_Exception x"
  shows "submit_prices (chain_client w) prices tr1 = (Inl x, tr2 @ [Log ERROR ''Submission error: %s'']) \<and>
         main_loop poll (w # ws) tr = Terminated x (tr2 @ [Log ERROR ''Submission error: %s''])"
  using assms by (simp add: submit_prices_def cycle_def)

theorem submission_error_terminates_witness:
  "fetch_all_prices (price_api env_submit_fails) ([] @ [Log INFO ''Fetching commodity prices'']) =
     (Inr [(''CRUDE_OIL_WTI'', 5000000), (''CRUDE_OIL_BRENT'', 5000000), (''NATURAL_GAS'', 5000000),
           (''XAU_USD'', 5000000), (''WHEAT_USD'', 5000000)],
      [Log INFO ''Fetching commodity prices'', Log INFO ''  %-20s  $%.4f  (raw: %d)'', Log INFO ''  %-20s  $%.4f  (raw: %d)'', Log INFO ''  %-20s  $%.4f  (raw: %d)'', Log INFO ''  %-20s  $%.4f  (raw: %d)'', Log INFO ''  %-20s  $%.4f  (raw: %d)'']) \<and>
   is_Exception ConnectionError \<and>
   main_loop 60 [env_submit_fails, env_all_down] [] =
     Terminated ConnectionError
       [Log INFO ''Fetching commodity prices'', Log INFO ''  %-20s  $%.4f  (raw: %d)'', Log INFO ''  %-20s  $%.4f  (raw: %d)'', Log INFO ''  %-20s  $%.4f  (raw: %d)'', Log INFO ''  %-20s  $%.4f  (raw: %d)'', Log INFO ''  %-20s  $%.4f  (raw: %d)'',
        Log ERROR ''Submission error: %s'']"
proof -
  let ?prices = "[(''CRUDE_OIL_WTI'', 5000000::int), (''CRUDE_OIL_BRENT'', 5000000),
    (''NATURAL_GAS'', 5000000), (''XAU_USD'', 5000000), (''WHEAT_USD'', 5000000)]"
  let ?tr1 = "[Log INFO ''Fetching commodity prices'', Log INFO ''  %-20s  $%.4f  (raw: %d)'', Log INFO ''  %-20s  $%.4f  (raw: %d)'', Log INFO ''  %-20s  $%.4f  (raw: %d)'', Log INFO ''  %-20s  $%.4f  (raw: %d)'', Log INFO ''  %-20s  $%.4f  (raw: %d)'']"
  let ?ids = "map (\<lambda>name. keccak256 (bytes_of_text name)) (map fst ?prices)"
  have f: "fetch_all_prices (price_api env_submit_fails) ([] @ [Log INFO ''Fetching commodity prices'']) =
      (Inr ?prices, ?tr1)"
    by (simp add: env_submit_fails_def fetch_eval provider_const_def)
  have n: "?prices \<noteq> []" by simp
  have b: "build_batch ?prices = Inr (?ids, map snd ?prices)"
    by (simp add: build_batch_def dict_get_def COMMODITY_IDS_def COMMODITY_SOURCES_def and_then_def)
  have t: "submit_try (chain_client env_submit_fails) ?ids (map snd ?prices) ?tr1 =
      (Inl ConnectionError, ?tr1)"
    by (simp add: env_submit_fails_def submit_try_def chain_down_def chain_ok_def and_then_def)
  have e: "is_Exception ConnectionError" by simp
  from submission_error_terminates [OF f n b t e, of 60 "[env_all_down]"] f e
  show ?thesis by simp
qed

end
